theory Spec2Isabelle
  imports Complex_Main "HOL-Library.Char_ord" "HOL-Library.List_Lexorder"
begin

section \<open>Values of the program\<close>

text \<open>
  The program is one Python script, \<^verbatim>\<open>My_Health_App4.py\<close>. Its numbers are Python
  floats. A finite float is modelled by the real number it denotes (\<open>Fin\<close>); the one
  non-finite value kept is the \<open>nan\<close> that pandas puts in an empty cell (\<open>NaN\<close>).
  The thresholds the script compares against (18.5, 25, 30, 85, 90) are floats exactly,
  so comparing a stored value with one of them is comparing the real numbers, and the
  judgments of a given bmi and of a given waist are exact.

  Arithmetic is idealised: \<open>fsub\<close>, \<open>fmul\<close>, \<open>fsquare\<close> and \<open>fdiv\<close> give the exact real
  result, where Python rounds each result to the nearest double, lets a square underflow
  to 0.0 or raise OverflowError, and lets a quotient become \<open>inf\<close>; 0.1 and 1.73 stand
  for the doubles nearest to them. The values \<open>diagnose\<close> returns are therefore the exact
  ones that the floats of the script approximate. The idealisation can change a judgment
  only where a computed value lies within rounding distance of the value it is compared
  with, or where a square leaves the normal range of doubles. For that reason the
  inclusive ten per cent boundary of the weight judgment, which rounding decides, is not
  made a theorem, and the theorem on heights that raise no exception is stated for
  squares in the normal range of doubles.
\<close>

datatype pyfloat = Fin real | NaN

text \<open>A Python value in a cell of the table or in a form field: a float or a str.\<close>

datatype pyval = Float pyfloat | Str string

datatype py_error = ZeroDivisionError | KeyError | TypeError | ValueError | ParserError

text \<open>An exception ends what is being computed: the next step runs on a result only.\<close>

definition and_then :: "'e + 'a \<Rightarrow> ('a \<Rightarrow> 'e + 'b) \<Rightarrow> 'e + 'b" where
  "and_then m f = (case m of Inl e \<Rightarrow> Inl e | Inr x \<Rightarrow> f x)"

text \<open>Comparison and arithmetic of floats: every comparison with \<open>nan\<close> is False, every
  arithmetic result with a \<open>nan\<close> operand is \<open>nan\<close>.\<close>

fun flt :: "pyfloat \<Rightarrow> pyfloat \<Rightarrow> bool" where
  "flt (Fin a) (Fin b) = (a < b)"
| "flt _ _ = False"

fun fle :: "pyfloat \<Rightarrow> pyfloat \<Rightarrow> bool" where
  "fle (Fin a) (Fin b) = (a \<le> b)"
| "fle _ _ = False"

fun fsub :: "pyfloat \<Rightarrow> pyfloat \<Rightarrow> pyfloat" where
  "fsub (Fin a) (Fin b) = Fin (a - b)"
| "fsub _ _ = NaN"

fun fmul :: "pyfloat \<Rightarrow> pyfloat \<Rightarrow> pyfloat" where
  "fmul (Fin a) (Fin b) = Fin (a * b)"
| "fmul _ _ = NaN"

fun fabs :: "pyfloat \<Rightarrow> pyfloat" where
  "fabs (Fin a) = Fin \<bar>a\<bar>"
| "fabs NaN = NaN"

text \<open>\<^verbatim>\<open>x ** 2\<close>\<close>

fun fsquare :: "pyfloat \<Rightarrow> pyfloat" where
  "fsquare (Fin a) = Fin (a ^ 2)"
| "fsquare NaN = NaN"

text \<open>\<^verbatim>\<open>a / b\<close> on Python floats: a zero divisor raises, whatever the dividend.\<close>

fun fdiv :: "pyfloat \<Rightarrow> pyfloat \<Rightarrow> py_error + pyfloat" where
  "fdiv a (Fin b) =
     (if b = 0 then Inl ZeroDivisionError
      else (case a of Fin x \<Rightarrow> Inr (Fin (x / b)) | NaN \<Rightarrow> Inr NaN))"
| "fdiv a NaN = Inr NaN"

text \<open>\<^verbatim>\<open>round(x, 2)\<close>: the nearest multiple of 1/100, a tie going to the even one.\<close>

fun round2 :: "pyfloat \<Rightarrow> pyfloat" where
  "round2 (Fin x) =
     (let y = x * 100; f = \<lfloor>y\<rfloor>; d = y - of_int f
      in Fin (of_int (if d < 1 / 2 then f
                      else if 1 / 2 < d then f + 1
                      else if even f then f else f + 1) / 100))"
| "round2 NaN = NaN"

subsection \<open>String literals\<close>

text \<open>
  A Python str is kept as the UTF-8 bytes of its text, which decides equality of strs
  as Python does. The literals of the script, in the order they appear: the nine column
  names of lines 24-25 (date-time, height, weight, waist, BMI, gender, running, cycling,
  swimming), the two gender labels of line 64, and the judgment labels of lines 78-81.
\<close>

definition COL_DATETIME :: string where
  "COL_DATETIME = [CHR 0xE6, CHR 0x97, CHR 0xA5, CHR 0xE6, CHR 0x99, CHR 0x82]"

definition COL_HEIGHT :: string where
  "COL_HEIGHT = [CHR 0xE8, CHR 0xBA, CHR 0xAB, CHR 0xE9, CHR 0x95, CHR 0xB7] @ ''(m)''"

definition COL_WEIGHT :: string where
  "COL_WEIGHT = [CHR 0xE4, CHR 0xBD, CHR 0x93, CHR 0xE9, CHR 0x87, CHR 0x8D] @ ''(kg)''"

definition COL_WAIST :: string where
  "COL_WAIST = [CHR 0xE8, CHR 0x85, CHR 0xB9, CHR 0xE5, CHR 0x9B, CHR 0xB2] @ ''(cm)''"

definition COL_BMI :: string where
  "COL_BMI = ''BMI''"

definition COL_GENDER :: string where
  "COL_GENDER = [CHR 0xE6, CHR 0x80, CHR 0xA7, CHR 0xE5, CHR 0x88, CHR 0xA5]"

definition COL_RUN :: string where
  "COL_RUN = [CHR 0xE3, CHR 0x83, CHR 0xA9, CHR 0xE3, CHR 0x83, CHR 0xB3, CHR 0xE3, CHR 0x83,
              CHR 0x8B, CHR 0xE3, CHR 0x83, CHR 0xB3, CHR 0xE3, CHR 0x82, CHR 0xB0] @ ''(km)''"

definition COL_BIKE :: string where
  "COL_BIKE = [CHR 0xE8, CHR 0x87, CHR 0xAA, CHR 0xE8, CHR 0xBB, CHR 0xA2, CHR 0xE8, CHR 0xBB,
               CHR 0x8A] @ ''(km)''"

definition COL_SWIM :: string where
  "COL_SWIM = [CHR 0xE6, CHR 0xB0, CHR 0xB4, CHR 0xE6, CHR 0xB3, CHR 0xB3] @ ''(km)''"

text \<open>The options of the gender radio button (line 64): male, female.\<close>

definition MALE :: string where
  "MALE = [CHR 0xE7, CHR 0x94, CHR 0xB7, CHR 0xE6, CHR 0x80, CHR 0xA7]"

definition FEMALE :: string where
  "FEMALE = [CHR 0xE5, CHR 0xA5, CHR 0xB3, CHR 0xE6, CHR 0x80, CHR 0xA7]"

text \<open>
  The judgment labels. \<open>THIN\<close> (underweight) and \<open>STANDARD\<close> (normal build) are shared by
  the BMI and the weight judgment; \<open>OBESE_1\<close> is obesity class 1 and \<open>OBESE_HIGH\<close> severe
  obesity; \<open>WAIST_NORMAL\<close> and \<open>METABO\<close> (possible metabolic syndrome) are the waist
  labels; \<open>OVERWEIGHT\<close> is the third weight label.
\<close>

definition THIN :: string where
  "THIN = [CHR 0xE3, CHR 0x82, CHR 0x84, CHR 0xE3, CHR 0x81, CHR 0x9B, CHR 0xE5, CHR 0x9E,
           CHR 0x8B]"

definition STANDARD :: string where
  "STANDARD = [CHR 0xE6, CHR 0xA8, CHR 0x99, CHR 0xE6, CHR 0xBA, CHR 0x96, CHR 0xE4, CHR 0xBD,
               CHR 0x93, CHR 0xE5, CHR 0x9E, CHR 0x8B]"

definition OBESE_1 :: string where
  "OBESE_1 = [CHR 0xE8, CHR 0x82, CHR 0xA5, CHR 0xE6, CHR 0xBA, CHR 0x80, CHR 0xEF, CHR 0xBC,
              CHR 0x88, CHR 0x31, CHR 0xE5, CHR 0xBA, CHR 0xA6, CHR 0xEF, CHR 0xBC, CHR 0x89]"

definition OBESE_HIGH :: string where
  "OBESE_HIGH = [CHR 0xE9, CHR 0xAB, CHR 0x98, CHR 0xE5, CHR 0xBA, CHR 0xA6, CHR 0xE8, CHR 0x82,
                 CHR 0xA5, CHR 0xE6, CHR 0xBA, CHR 0x80]"

definition WAIST_NORMAL :: string where
  "WAIST_NORMAL = [CHR 0xE6, CHR 0xAD, CHR 0xA3, CHR 0xE5, CHR 0xB8, CHR 0xB8]"

definition METABO :: string where
  "METABO = [CHR 0xE3, CHR 0x83, CHR 0xA1, CHR 0xE3, CHR 0x82, CHR 0xBF, CHR 0xE3, CHR 0x83,
             CHR 0x9C, CHR 0xE3, CHR 0x81, CHR 0xAE, CHR 0xE5, CHR 0x8F, CHR 0xAF, CHR 0xE8,
             CHR 0x83, CHR 0xBD, CHR 0xE6, CHR 0x80, CHR 0xA7, CHR 0xE3, CHR 0x81, CHR 0x82,
             CHR 0xE3, CHR 0x82, CHR 0x8A]"

definition OVERWEIGHT :: string where
  "OVERWEIGHT = [CHR 0xE5, CHR 0xA4, CHR 0xAA, CHR 0xE3, CHR 0x82, CHR 0x8A, CHR 0xE6, CHR 0xB0,
                 CHR 0x97, CHR 0xE5, CHR 0x91, CHR 0xB3]"

subsection \<open>Date-time texts\<close>

text \<open>
  Line 91 writes the time of an entry with \<^verbatim>\<open>strftime("%Y-%m-%d %H:%M")\<close>: sixteen
  characters, four digits of the year, two each of month, day, hour and minute.
  \<open>is_timestamp\<close> holds of the texts of that form that name a date of the calendar and a
  time of the day, in the years every pandas time stamp can hold (1678 to 2261).
\<close>

definition is_digit :: "char \<Rightarrow> bool" where
  "is_digit c = (c \<in> set ''0123456789'')"

definition digit_val :: "char \<Rightarrow> nat" where
  "digit_val c = of_char c - 48"

definition num2 :: "char \<Rightarrow> char \<Rightarrow> nat" where
  "num2 a b = 10 * digit_val a + digit_val b"

definition days_in_month :: "nat \<Rightarrow> nat \<Rightarrow> nat" where
  "days_in_month y m =
     (if m = 2
      then (if (if y mod 100 = 0 then y mod 400 = 0 else y mod 4 = 0) then 29 else 28)
      else if m \<in> {4, 6, 9, 11} then 30 else 31)"

definition is_timestamp :: "string \<Rightarrow> bool" where
  "is_timestamp s =
     (case s of
        [y1, y2, y3, y4, s1, m1, m2, s2, d1, d2, s3, h1, h2, s4, n1, n2] \<Rightarrow>
          list_all is_digit [y1, y2, y3, y4, m1, m2, d1, d2, h1, h2, n1, n2]
          \<and> s1 = CHR ''-'' \<and> s2 = CHR ''-'' \<and> s3 = CHR '' '' \<and> s4 = CHR '':''
          \<and> 1678 \<le> 100 * num2 y1 y2 + num2 y3 y4
          \<and> 100 * num2 y1 y2 + num2 y3 y4 \<le> 2261
          \<and> 1 \<le> num2 m1 m2 \<and> num2 m1 m2 \<le> 12
          \<and> 1 \<le> num2 d1 d2
          \<and> num2 d1 d2 \<le> days_in_month (100 * num2 y1 y2 + num2 y3 y4) (num2 m1 m2)
          \<and> num2 h1 h2 \<le> 23 \<and> num2 n1 n2 \<le> 59
      | _ \<Rightarrow> False)"

section \<open>The judgments (lines 73-81, repeated at lines 115-121)\<close>

text \<open>
  Line 78 and line 118 are the same expression over \<open>bmi\<close>, lines 79 and 119 the same
  over \<open>waist\<close> and \<open>gender\<close>, lines 80-81 and 120-121 the same over \<open>weight\<close> and
  \<open>ideal_weight\<close>; each is one function here, called from both places.
\<close>

definition bmi_msg :: "pyfloat \<Rightarrow> string" where
  "bmi_msg bmi =
     (if flt bmi (Fin 18.5) then THIN
      else if flt bmi (Fin 25) then STANDARD
      else if flt bmi (Fin 30) then OBESE_1
      else OBESE_HIGH)"

definition waist_msg :: "pyfloat \<Rightarrow> pyval \<Rightarrow> string" where
  "waist_msg waist gender =
     (if (if gender = Str MALE then flt waist (Fin 85) else flt waist (Fin 90))
      then WAIST_NORMAL else METABO)"

definition weight_msg :: "pyfloat \<Rightarrow> pyfloat \<Rightarrow> string" where
  "weight_msg weight ideal_weight =
     (let diff = fsub weight ideal_weight
      in if fle (fabs diff) (fmul ideal_weight (Fin 0.1)) then STANDARD
         else if flt weight ideal_weight then THIN
         else OVERWEIGHT)"

text \<open>\<^verbatim>\<open>ideal_weight = 22 * (height ** 2)\<close> (lines 75 and 115).\<close>

definition ideal_weight :: "pyfloat \<Rightarrow> pyfloat" where
  "ideal_weight height = fmul (Fin 22) (fsquare height)"

text \<open>What the block under \<^verbatim>\<open>if submitted:\<close> computes and displays (lines 74-89).\<close>

record diagnosis =
  res_ideal_weight :: pyfloat
  res_bmi :: pyfloat
  res_weight_msg :: string
  res_bmi_msg :: string
  res_waist_msg :: string

definition diagnose :: "pyfloat \<Rightarrow> pyfloat \<Rightarrow> pyfloat \<Rightarrow> pyval \<Rightarrow> py_error + diagnosis" where
  "diagnose height weight waist gender =
     (case fdiv weight (fsquare height) of
        Inl e \<Rightarrow> Inl e
      | Inr bmi \<Rightarrow>
          Inr \<lparr> res_ideal_weight = ideal_weight height,
                res_bmi = bmi,
                res_weight_msg = weight_msg weight (ideal_weight height),
                res_bmi_msg = bmi_msg bmi,
                res_waist_msg = waist_msg waist gender \<rparr>)"

text \<open>The form fixes the height (line 60).\<close>

definition form_height :: pyfloat where
  "form_height = Fin 1.73"

section \<open>The log (lines 15-32)\<close>

text \<open>
  A pandas DataFrame is its column names, in order, and its rows, each a list of cells
  in the order of the columns. \<open>wf_df\<close> says what pandas keeps true of every frame it
  builds from a CSV file: the column names differ and every row has one cell per column.
\<close>

record dataframe =
  columns :: "string list"
  rows :: "pyval list list"

definition wf_df :: "dataframe \<Rightarrow> bool" where
  "wf_df df = (distinct (columns df) \<and> list_all (\<lambda>r. length r = length (columns df)) (rows df))"

text \<open>The cell of a row under a column name, \<open>None\<close> when the frame has no such column.\<close>

definition cell :: "string list \<Rightarrow> pyval list \<Rightarrow> string \<Rightarrow> pyval option" where
  "cell cols r c = map_of (zip cols r) c"

text \<open>The same where pandas fills a missing cell with \<open>nan\<close>.\<close>

definition cell_or_nan :: "string list \<Rightarrow> pyval list \<Rightarrow> string \<Rightarrow> pyval" where
  "cell_or_nan cols r c = (case cell cols r c of Some v \<Rightarrow> v | None \<Rightarrow> Float NaN)"

text \<open>\<^verbatim>\<open>row[c]\<close>: a missing label raises KeyError.\<close>

definition getitem :: "string list \<Rightarrow> pyval list \<Rightarrow> string \<Rightarrow> py_error + pyval" where
  "getitem cols r c = (case cell cols r c of None \<Rightarrow> Inl KeyError | Some v \<Rightarrow> Inr v)"

text \<open>\<^verbatim>\<open>df.empty\<close>: no rows or no columns.\<close>

definition df_empty :: "dataframe \<Rightarrow> bool" where
  "df_empty df = (rows df = [] \<or> columns df = [])"

text \<open>
  The file \<^verbatim>\<open>bmi_log.csv\<close> is absent (\<open>None\<close>) or holds text. The text is kept as the
  table pandas reads from it, or as \<open>Unparseable\<close> when \<^verbatim>\<open>read_csv\<close> raises on it. How
  pandas prints and parses a cell is not modelled: \<open>to_csv\<close> followed by \<open>read_csv\<close> is
  the frame again. That is what pandas does for a frame of the kind the script writes
  (\<open>is_log\<close> below): date-time texts, the two gender labels and finite numbers, each in
  its own column. It is not what pandas does for every frame (a text such as NA is read
  back as \<open>nan\<close>, a number under a column of texts is read back as text), so what is
  proved about a frame that was written and read again is proved for such logs only.
\<close>

datatype csv_file = Unparseable | Table dataframe

type_synonym storage = "csv_file option"

definition read_csv :: "csv_file \<Rightarrow> py_error + dataframe" where
  "read_csv file = (case file of Unparseable \<Rightarrow> Inl ParserError | Table df \<Rightarrow> Inr df)"

definition to_csv :: "dataframe \<Rightarrow> csv_file" where
  "to_csv df = Table df"

text \<open>\<^verbatim>\<open>df[col] = v\<close> for a column the frame does not have: a new last column, \<open>v\<close> in
  every row.\<close>

definition add_column :: "string \<Rightarrow> pyval \<Rightarrow> dataframe \<Rightarrow> dataframe" where
  "add_column col v df = \<lparr> columns = columns df @ [col], rows = map (\<lambda>r. r @ [v]) (rows df) \<rparr>"

text \<open>The column list of lines 23-26.\<close>

definition canonical_columns :: "string list" where
  "canonical_columns =
     [COL_DATETIME, COL_HEIGHT, COL_WEIGHT, COL_WAIST, COL_BMI, COL_GENDER,
      COL_RUN, COL_BIKE, COL_SWIM]"

definition load_log :: "storage \<Rightarrow> py_error + dataframe" where
  "load_log fs =
     (case fs of
        Some file \<Rightarrow>
          (case read_csv file of
             Inl e \<Rightarrow> Inl e
           | Inr df \<Rightarrow>
               Inr (fold (\<lambda>col df. if col \<notin> set (columns df)
                                     then add_column col (Float (Fin 0)) df else df)
                         [COL_RUN, COL_BIKE, COL_SWIM] df))
      | None \<Rightarrow> Inr \<lparr> columns = canonical_columns, rows = [] \<rparr>)"

text \<open>\<^verbatim>\<open>pd.DataFrame([entry])\<close>: one row, the dict's keys as columns in their order.\<close>

definition DataFrame1 :: "(string \<times> pyval) list \<Rightarrow> dataframe" where
  "DataFrame1 entry = \<lparr> columns = map fst entry, rows = [map snd entry] \<rparr>"

text \<open>
  \<^verbatim>\<open>pd.concat([a, b], ignore_index=True)\<close>: the columns of \<open>a\<close>, then those of \<open>b\<close> that
  \<open>a\<close> lacks; the rows of \<open>a\<close>, then those of \<open>b\<close>, each laid out under the new columns
  with \<open>nan\<close> where its frame had no such column.
\<close>

definition reindex :: "string list \<Rightarrow> string list \<Rightarrow> pyval list \<Rightarrow> pyval list" where
  "reindex newcols cols r = map (cell_or_nan cols r) newcols"

definition pd_concat :: "dataframe \<Rightarrow> dataframe \<Rightarrow> dataframe" where
  "pd_concat a b =
     (let cols = columns a @ filter (\<lambda>c. c \<notin> set (columns a)) (columns b)
      in \<lparr> columns = cols,
           rows = map (reindex cols (columns a)) (rows a)
                @ map (reindex cols (columns b)) (rows b) \<rparr>)"

definition save_log :: "(string \<times> pyval) list \<Rightarrow> storage \<Rightarrow> py_error + storage" where
  "save_log entry fs =
     (case load_log fs of
        Inl e \<Rightarrow> Inl e
      | Inr df \<Rightarrow> Inr (Some (to_csv (pd_concat df (DataFrame1 entry)))))"

section \<open>Saving a diagnosis (lines 91-97)\<close>

definition log_entry ::
  "string \<Rightarrow> pyfloat \<Rightarrow> pyfloat \<Rightarrow> pyfloat \<Rightarrow> pyfloat \<Rightarrow> pyval \<Rightarrow> pyfloat \<Rightarrow> pyfloat \<Rightarrow> pyfloat
     \<Rightarrow> (string \<times> pyval) list" where
  "log_entry now height weight waist bmi gender run bike swim =
     [(COL_DATETIME, Str now), (COL_HEIGHT, Float height), (COL_WEIGHT, Float weight),
      (COL_WAIST, Float waist), (COL_BMI, Float (round2 bmi)), (COL_GENDER, gender),
      (COL_RUN, Float run), (COL_BIKE, Float bike), (COL_SWIM, Float swim)]"

text \<open>
  A row as lines 92-96 build it: a date-time text, one of the two gender labels, and a
  finite number in each of the seven numeric columns. A log of the script is a frame with
  exactly the canonical columns whose rows are all of that kind.
\<close>

definition is_number :: "pyval option \<Rightarrow> bool" where
  "is_number v = (case v of Some (Float (Fin x)) \<Rightarrow> True | _ \<Rightarrow> False)"

definition is_datetime :: "pyval option \<Rightarrow> bool" where
  "is_datetime v = (case v of Some (Str t) \<Rightarrow> is_timestamp t | _ \<Rightarrow> False)"

definition health_row :: "string list \<Rightarrow> pyval list \<Rightarrow> bool" where
  "health_row cols r =
     (is_datetime (cell cols r COL_DATETIME)
      \<and> (cell cols r COL_GENDER = Some (Str MALE) \<or> cell cols r COL_GENDER = Some (Str FEMALE))
      \<and> list_all (\<lambda>c. is_number (cell cols r c))
           [COL_HEIGHT, COL_WEIGHT, COL_WAIST, COL_BMI, COL_RUN, COL_BIKE, COL_SWIM])"

definition is_log :: "dataframe \<Rightarrow> bool" where
  "is_log df =
     (wf_df df \<and> set (columns df) = set canonical_columns
      \<and> list_all (health_row (columns df)) (rows df))"

text \<open>The whole block under \<^verbatim>\<open>if submitted:\<close>: the diagnosis shown and the storage left.\<close>

definition submit ::
  "string \<Rightarrow> pyfloat \<Rightarrow> pyfloat \<Rightarrow> pyval \<Rightarrow> pyfloat \<Rightarrow> pyfloat \<Rightarrow> pyfloat \<Rightarrow> storage
     \<Rightarrow> py_error + diagnosis \<times> storage" where
  "submit now weight waist gender run bike swim fs =
     (case diagnose form_height weight waist gender of
        Inl e \<Rightarrow> Inl e
      | Inr d \<Rightarrow>
          (case save_log (log_entry now form_height weight waist (res_bmi d) gender
                            run bike swim) fs of
             Inl e \<Rightarrow> Inl e
           | Inr fs' \<Rightarrow> Inr (d, fs')))"

section \<open>The chart (lines 35-50)\<close>

text \<open>\<^verbatim>\<open>df.tail(n)\<close>: the last \<open>n\<close> rows, all of them when there are fewer.\<close>

definition tail :: "nat \<Rightarrow> 'a list \<Rightarrow> 'a list" where
  "tail n xs = drop (length xs - n) xs"

text \<open>\<^verbatim>\<open>df[c]\<close>: the cells of one column, row by row; KeyError without the column.\<close>

definition getcol :: "dataframe \<Rightarrow> string \<Rightarrow> py_error + pyval list" where
  "getcol df c =
     (if c \<in> set (columns df)
      then Inr (map (\<lambda>r. cell_or_nan (columns df) r c) (rows df))
      else Inl KeyError)"

text \<open>
  \<^verbatim>\<open>pd.to_datetime\<close> (line 37) turns a column of date-time texts into time stamps,
  position by position, and raises ValueError on a text it cannot read. A text of the
  script's own form is read; such a text stands for its time stamp here. pandas reads
  more than that (dates written otherwise, an empty cell, a number): this model does not
  say which, and answers ValueError for every cell that is no date-time text of the
  script's form. It is therefore stricter than pandas on such cells, and what is proved
  about the chart is proved for date-time cells of the script's form.
\<close>

definition to_datetime :: "pyval list \<Rightarrow> py_error + pyval list" where
  "to_datetime xs = (if list_all (\<lambda>v. is_datetime (Some v)) xs then Inr xs else Inl ValueError)"

text \<open>
  The points handed to \<^verbatim>\<open>ax.plot\<close>, in the order they are handed over: the date-time and
  the weight of each row of \<^verbatim>\<open>df.tail(10)\<close>.
\<close>

definition generate_bmi_plot :: "dataframe \<Rightarrow> py_error + (pyval \<times> pyval) list" where
  "generate_bmi_plot df =
     (let df_plot = \<lparr> columns = columns df, rows = tail 10 (rows df) \<rparr>
      in and_then (getcol df_plot COL_DATETIME) (\<lambda>dates.
         and_then (to_datetime dates) (\<lambda>stamps.
         and_then (getcol df_plot COL_WEIGHT) (\<lambda>weights.
           Inr (zip stamps weights)))))"

text \<open>
  The script writes every date-time as \<^verbatim>\<open>%Y-%m-%d %H:%M\<close>, a text of fixed width, so one
  such text is earlier than another exactly when it comes first as text. \<open>ts_le\<close> is that
  order on cells; a cell that is no text is in no order with anything.
\<close>

definition ts_le :: "pyval \<Rightarrow> pyval \<Rightarrow> bool" where
  "ts_le a b = (case (a, b) of (Str s, Str t) \<Rightarrow> s \<le> t | _ \<Rightarrow> False)"

section \<open>The report (lines 101-137)\<close>

text \<open>A cell used as a number: a str operand of \<^verbatim>\<open>**\<close>, \<^verbatim>\<open>-\<close> or \<^verbatim>\<open><\<close> against a float
  raises TypeError.\<close>

definition as_float :: "pyval \<Rightarrow> py_error + pyfloat" where
  "as_float v = (case v of Float x \<Rightarrow> Inr x | Str s \<Rightarrow> Inl TypeError)"

record judgments =
  pdf_weight_msg :: string
  pdf_bmi_msg :: string
  pdf_waist_msg :: string

text \<open>Lines 109-121 on the row \<^verbatim>\<open>latest\<close>: the five reads, then the three judgments.\<close>

definition rejudge :: "string list \<Rightarrow> pyval list \<Rightarrow> py_error + judgments" where
  "rejudge cols latest =
     and_then (getitem cols latest COL_WEIGHT) (\<lambda>weight_cell.
     and_then (getitem cols latest COL_WAIST) (\<lambda>waist_cell.
     and_then (getitem cols latest COL_HEIGHT) (\<lambda>height_cell.
     and_then (getitem cols latest COL_BMI) (\<lambda>bmi_cell.
     and_then (getitem cols latest COL_GENDER) (\<lambda>gender.
     and_then (as_float height_cell) (\<lambda>height.
     and_then (as_float bmi_cell) (\<lambda>bmi.
     and_then (as_float waist_cell) (\<lambda>waist.
     and_then (as_float weight_cell) (\<lambda>weight.
       Inr \<lparr> pdf_weight_msg = weight_msg weight (ideal_weight height),
             pdf_bmi_msg = bmi_msg bmi,
             pdf_waist_msg = waist_msg waist gender \<rparr>)))))))))"

text \<open>The page below the form when the PDF button is pressed: the judgments printed
  and the chart drawn (line 123); \<open>None\<close> is the "no records yet" branch of line 142.\<close>

definition report :: "storage \<Rightarrow> py_error + (judgments \<times> (pyval \<times> pyval) list) option" where
  "report fs =
     (case load_log fs of
        Inl e \<Rightarrow> Inl e
      | Inr df \<Rightarrow>
          if \<not> df_empty df
          then (case rejudge (columns df) (last (rows df)) of
                  Inl e \<Rightarrow> Inl e
                | Inr j \<Rightarrow>
                    (case generate_bmi_plot df of
                       Inl e \<Rightarrow> Inl e
                     | Inr points \<Rightarrow> Inr (Some (j, points))))
          else Inr None)"

section \<open>Facts about the labels\<close>

lemma bmi_labels_distinct:
  "THIN \<noteq> STANDARD" "THIN \<noteq> OBESE_1" "THIN \<noteq> OBESE_HIGH"
  "STANDARD \<noteq> OBESE_1" "STANDARD \<noteq> OBESE_HIGH" "OBESE_1 \<noteq> OBESE_HIGH"
  by (simp_all add: THIN_def STANDARD_def OBESE_1_def OBESE_HIGH_def)

lemma waist_labels_distinct: "WAIST_NORMAL \<noteq> METABO"
  by (simp add: WAIST_NORMAL_def METABO_def)

lemma weight_labels_distinct:
  "STANDARD \<noteq> THIN" "STANDARD \<noteq> OVERWEIGHT" "THIN \<noteq> OVERWEIGHT"
  by (simp_all add: THIN_def STANDARD_def OVERWEIGHT_def)

lemma gender_labels_distinct: "MALE \<noteq> FEMALE"
  by (simp add: MALE_def FEMALE_def)

section \<open>The BMI judgment\<close>

lemma bmi_msg_Fin:
  "bmi_msg (Fin b) =
     (if b < 18.5 then THIN
      else if b < 25 then STANDARD
      else if b < 30 then OBESE_1
      else OBESE_HIGH)"
  by (simp add: bmi_msg_def)

lemma diagnose_Fin:
  "h \<noteq> 0 \<Longrightarrow>
   diagnose (Fin h) (Fin w) waist gender =
     Inr \<lparr> res_ideal_weight = Fin (22 * h ^ 2),
           res_bmi = Fin (w / h ^ 2),
           res_weight_msg = weight_msg (Fin w) (Fin (22 * h ^ 2)),
           res_bmi_msg = bmi_msg (Fin (w / h ^ 2)),
           res_waist_msg = waist_msg waist gender \<rparr>"
  by (simp add: diagnose_def ideal_weight_def)

lemma waist_msg_Fin:
  "waist_msg (Fin w) gender =
     (if gender = Str MALE then (if w < 85 then WAIST_NORMAL else METABO)
      else (if w < 90 then WAIST_NORMAL else METABO))"
  by (simp add: waist_msg_def)

lemma weight_msg_Fin:
  "weight_msg (Fin w) (Fin i) =
     (if \<bar>w - i\<bar> \<le> 0.1 * i then STANDARD
      else if w - i < 0 then THIN else OVERWEIGHT)"
  by (simp add: weight_msg_def Let_def mult.commute)

lemma diagnose_zero: "diagnose (Fin 0) weight waist gender = Inl ZeroDivisionError"
  by (simp add: diagnose_def)

lemma diagnose_nonzero:
  "h \<noteq> 0 \<Longrightarrow> \<exists>bmi. fdiv weight (Fin (h ^ 2)) = Inr bmi \<and>
   diagnose (Fin h) weight waist gender =
     Inr \<lparr> res_ideal_weight = Fin (22 * h ^ 2),
           res_bmi = bmi,
           res_weight_msg = weight_msg weight (Fin (22 * h ^ 2)),
           res_bmi_msg = bmi_msg bmi,
           res_waist_msg = waist_msg waist gender \<rparr>"
  by (cases weight) (simp_all add: diagnose_def ideal_weight_def)

lemma diagnose_neg: "diagnose (Fin (- h)) weight waist gender = diagnose (Fin h) weight waist gender"
  by (cases weight; cases "h = 0") (simp_all add: diagnose_def ideal_weight_def)

text \<open>
  C1. For every (finite) bmi the BMI judgment is: underweight below 18.5, normal from
  18.5 up to but excluding 25, obesity class 1 from 25 up to but excluding 30, severe
  obesity from 30 on. The four labels are pairwise different, so exactly one applies; at
  18.5 the judgment is normal, at 25 obesity class 1, at 30 severe obesity. For a height
  other than zero \<open>diagnose\<close> returns, its bmi is weight / height squared, and its BMI
  judgment is the one above for that bmi.
\<close>

theorem C1_bmi_category:
  assumes "h \<noteq> 0"
  shows "(\<exists>d. diagnose (Fin h) (Fin w) waist gender = Inr d
            \<and> res_bmi d = Fin (w / h ^ 2)
            \<and> res_bmi_msg d =
                (if w / h ^ 2 < 18.5 then THIN
                 else if w / h ^ 2 < 25 then STANDARD
                 else if w / h ^ 2 < 30 then OBESE_1
                 else OBESE_HIGH))
       \<and> bmi_msg (Fin b) =
           (if b < 18.5 then THIN
            else if b < 25 then STANDARD
            else if b < 30 then OBESE_1
            else OBESE_HIGH)
       \<and> bmi_msg (Fin 18.5) = STANDARD \<and> bmi_msg (Fin 18.5) \<noteq> THIN
       \<and> bmi_msg (Fin 25) = OBESE_1 \<and> bmi_msg (Fin 25) \<noteq> STANDARD
       \<and> bmi_msg (Fin 30) = OBESE_HIGH
       \<and> distinct [THIN, STANDARD, OBESE_1, OBESE_HIGH]"
proof -
  have ev: "\<exists>d. diagnose (Fin h) (Fin w) waist gender = Inr d
            \<and> res_bmi d = Fin (w / h ^ 2)
            \<and> res_bmi_msg d =
                (if w / h ^ 2 < 18.5 then THIN
                 else if w / h ^ 2 < 25 then STANDARD
                 else if w / h ^ 2 < 30 then OBESE_1
                 else OBESE_HIGH)"
    using assms by (simp add: diagnose_Fin bmi_msg_Fin)
  have b1: "bmi_msg (Fin 18.5) = STANDARD" by (simp add: bmi_msg_Fin)
  have b2: "bmi_msg (Fin 25) = OBESE_1" by (simp add: bmi_msg_Fin)
  have b3: "bmi_msg (Fin 30) = OBESE_HIGH" by (simp add: bmi_msg_Fin)
  have d: "distinct [THIN, STANDARD, OBESE_1, OBESE_HIGH]"
    by (simp add: bmi_labels_distinct)
  from d have n1: "bmi_msg (Fin 18.5) \<noteq> THIN" and n2: "bmi_msg (Fin 25) \<noteq> STANDARD"
    unfolding b1 b2 by auto
  from ev bmi_msg_Fin [of b] b1 n1 b2 n2 b3 d show ?thesis by blast
qed

text \<open>The form's own default input: height 1.73, weight 66.0, waist 83.0, male.\<close>

theorem C1_bmi_category_witness:
  "\<exists>d. diagnose (Fin 1.73) (Fin 66) (Fin 83) (Str MALE) = Inr d
        \<and> res_bmi d = Fin (66 / 1.73 ^ 2)
        \<and> res_bmi_msg d = STANDARD"
proof -
  have h: "(1.73::real) \<noteq> 0" by simp
  have lo: "\<not> (66 / 1.73 ^ 2 < (18.5::real))" by (simp add: power2_eq_square)
  have hi: "66 / 1.73 ^ 2 < (25::real)" by (simp add: power2_eq_square)
  from C1_bmi_category [OF h, of 66 "Fin 83" "Str MALE" 0, THEN conjunct1] lo hi
  show ?thesis by simp
qed

section \<open>The waist judgment\<close>

text \<open>
  C2. For every (finite) waist the waist judgment is taken against 85 for the male label
  and against 90 for the female label: normal below the threshold, metabolic risk at or
  above it. Male 85.0 is metabolic risk, male 84.999 is normal, female 90.0 is metabolic
  risk; the two labels differ. For a height other than zero \<open>diagnose\<close> returns this
  judgment.
\<close>

theorem C2_waist_judgment:
  assumes "h \<noteq> 0"
  shows "(\<exists>d. diagnose (Fin h) (Fin w) (Fin waist) (Str MALE) = Inr d
            \<and> res_waist_msg d = (if waist < 85 then WAIST_NORMAL else METABO))
       \<and> (\<exists>d. diagnose (Fin h) (Fin w) (Fin waist) (Str FEMALE) = Inr d
            \<and> res_waist_msg d = (if waist < 90 then WAIST_NORMAL else METABO))
       \<and> waist_msg (Fin waist) (Str MALE) = (if waist < 85 then WAIST_NORMAL else METABO)
       \<and> waist_msg (Fin waist) (Str FEMALE) = (if waist < 90 then WAIST_NORMAL else METABO)
       \<and> waist_msg (Fin 85) (Str MALE) = METABO
       \<and> waist_msg (Fin 84.999) (Str MALE) = WAIST_NORMAL
       \<and> waist_msg (Fin 90) (Str FEMALE) = METABO
       \<and> WAIST_NORMAL \<noteq> METABO"
proof -
  have f: "Str FEMALE \<noteq> Str MALE" using gender_labels_distinct by simp
  have m: "waist_msg (Fin x) (Str MALE) = (if x < 85 then WAIST_NORMAL else METABO)" for x
    by (simp add: waist_msg_Fin)
  have w: "waist_msg (Fin x) (Str FEMALE) = (if x < 90 then WAIST_NORMAL else METABO)" for x
    using f by (simp add: waist_msg_Fin)
  have dm: "\<exists>d. diagnose (Fin h) (Fin w) (Fin waist) (Str MALE) = Inr d
            \<and> res_waist_msg d = (if waist < 85 then WAIST_NORMAL else METABO)"
    using assms by (simp add: diagnose_Fin m)
  have dw: "\<exists>d. diagnose (Fin h) (Fin w) (Fin waist) (Str FEMALE) = Inr d
            \<and> res_waist_msg d = (if waist < 90 then WAIST_NORMAL else METABO)"
    using assms by (simp add: diagnose_Fin w)
  have b1: "waist_msg (Fin 85) (Str MALE) = METABO" by (simp add: m)
  have b2: "waist_msg (Fin 84.999) (Str MALE) = WAIST_NORMAL" by (simp add: m)
  have b3: "waist_msg (Fin 90) (Str FEMALE) = METABO" by (simp add: w)
  from dm dw m [of waist] w [of waist] b1 b2 b3 waist_labels_distinct
  show ?thesis by blast
qed

text \<open>The second scenario of the specification: weight 90, waist 95, male.\<close>

theorem C2_waist_judgment_witness:
  "diagnose (Fin 1.73) (Fin 90) (Fin 95) (Str MALE) =
     Inr \<lparr> res_ideal_weight = Fin (22 * 1.73 ^ 2),
           res_bmi = Fin (90 / 1.73 ^ 2),
           res_weight_msg = weight_msg (Fin 90) (Fin (22 * 1.73 ^ 2)),
           res_bmi_msg = bmi_msg (Fin (90 / 1.73 ^ 2)),
           res_waist_msg = METABO \<rparr>"
proof -
  have h: "(1.73::real) \<noteq> 0" by simp
  from C2_waist_judgment [OF h, of 90 95, THEN conjunct1]
  show ?thesis by (simp add: diagnose_Fin)
qed

section \<open>Heights that are not positive\<close>

text \<open>
  C7 as stated asks for an invalid-argument error on every height that is not positive.
  The script has no check of the height: the form fixes it, and the judgments use only
  its square. At height -1.73 \<open>diagnose\<close> returns the diagnosis of height 1.73 and no
  error.
\<close>

theorem C7_negative_height_counterexample:
  "diagnose (Fin (- 1.73)) (Fin 66) (Fin 83) (Str MALE) =
     Inr \<lparr> res_ideal_weight = Fin (22 * 1.73 ^ 2),
           res_bmi = Fin (66 / 1.73 ^ 2),
           res_weight_msg = STANDARD,
           res_bmi_msg = STANDARD,
           res_waist_msg = WAIST_NORMAL \<rparr>"
proof -
  have h: "(1.73::real) \<noteq> 0" by simp
  have a: "\<bar>66 - 22 * 1.73 ^ 2\<bar> \<le> 0.1 * (22 * (1.73::real) ^ 2)"
    by (simp add: power2_eq_square)
  have lo: "\<not> (66 / 1.73 ^ 2 < (18.5::real))" by (simp add: power2_eq_square)
  have hi: "66 / 1.73 ^ 2 < (25::real)" by (simp add: power2_eq_square)
  have "diagnose (Fin (- 1.73)) (Fin 66) (Fin 83) (Str MALE)
        = diagnose (Fin 1.73) (Fin 66) (Fin 83) (Str MALE)"
    by (rule diagnose_neg)
  also have "\<dots> = Inr \<lparr> res_ideal_weight = Fin (22 * 1.73 ^ 2),
           res_bmi = Fin (66 / 1.73 ^ 2),
           res_weight_msg = STANDARD,
           res_bmi_msg = STANDARD,
           res_waist_msg = WAIST_NORMAL \<rparr>"
    using a lo hi diagnose_Fin [OF h, of 66 "Fin 83" "Str MALE"]
    by (simp add: weight_msg_Fin bmi_msg_Fin waist_msg_Fin)
  finally show ?thesis .
qed

text \<open>
  C7, amended. \<open>diagnose\<close> checks no argument and signals no invalid-argument error. At
  height zero the division raises ZeroDivisionError. At every height whose square is in
  the normal range of doubles (from 2 to the power -1022 up to, not including, 2 to the
  power 1023), a negative one included, it returns a diagnosis and raises nothing, and
  the diagnosis of the negated height is the same. In particular no exception is raised
  at the height the form fixes, whatever the weight, the waist and the gender, and -1.73
  is diagnosed as 1.73 is. Nothing is said of heights whose square lies outside that
  range.
\<close>

theorem C7_no_height_check:
  "diagnose (Fin 0) weight waist gender = Inl ZeroDivisionError
   \<and> (1 / 2 ^ 1022 \<le> h ^ 2 \<and> h ^ 2 < 2 ^ 1023 \<longrightarrow>
         (\<exists>d. diagnose (Fin h) weight waist gender = Inr d)
       \<and> diagnose (Fin (- h)) weight waist gender = diagnose (Fin h) weight waist gender)
   \<and> (\<exists>d. diagnose form_height weight waist gender = Inr d)
   \<and> diagnose (Fin (- 1.73)) weight waist gender = diagnose form_height weight waist gender"
proof -
  have r: "\<exists>d. diagnose (Fin x) weight waist gender = Inr d" if "x \<noteq> 0" for x
    using diagnose_nonzero [OF that, of weight waist gender] by blast
  have n: "h \<noteq> 0" if "1 / 2 ^ 1022 \<le> h ^ 2"
  proof
    assume "h = 0"
    with that have "1 / 2 ^ 1022 \<le> (0::real)" by simp
    moreover have "(0::real) < 1 / 2 ^ 1022" by simp
    ultimately show False by linarith
  qed
  have f: "\<exists>d. diagnose form_height weight waist gender = Inr d"
    unfolding form_height_def by (rule r) simp
  have m: "diagnose (Fin (- 1.73)) weight waist gender = diagnose form_height weight waist gender"
    unfolding form_height_def by (rule diagnose_neg)
  from r n f m show ?thesis
    by (simp add: diagnose_zero diagnose_neg)
qed

text \<open>The square of 1.73 is in the normal range.\<close>

theorem C7_no_height_check_witness:
  "1 / 2 ^ 1022 \<le> (1.73::real) ^ 2 \<and> (1.73::real) ^ 2 < 2 ^ 1023
   \<and> (\<exists>d. diagnose (Fin 1.73) (Fin 66) (Fin 83) (Str MALE) = Inr d)
   \<and> diagnose (Fin (- 1.73)) (Fin 66) (Fin 83) (Str MALE)
     = diagnose (Fin 1.73) (Fin 66) (Fin 83) (Str MALE)"
proof -
  have lo: "1 / 2 ^ 1022 \<le> (1::real)" by simp
  have one: "(1::real) \<le> 1.73 ^ 2" by (simp add: power2_eq_square)
  have four: "(1.73::real) ^ 2 < 4" by (simp add: power2_eq_square)
  have hi: "(4::real) \<le> 2 ^ 1023"
    using power_increasing [of 2 1023 "2::real"] by simp
  have a: "1 / 2 ^ 1022 \<le> (1.73::real) ^ 2" using lo one by linarith
  have b: "(1.73::real) ^ 2 < 2 ^ 1023" using four hi by linarith
  from C7_no_height_check [of "Fin 66" "Fin 83" "Str MALE" "1.73"] a b
  show ?thesis by blast
qed

section \<open>Facts about the column names\<close>

lemma canonical_distinct: "distinct canonical_columns"
  by (simp add: canonical_columns_def COL_DATETIME_def COL_HEIGHT_def COL_WEIGHT_def
      COL_WAIST_def COL_BMI_def COL_GENDER_def COL_RUN_def COL_BIKE_def COL_SWIM_def)

lemma activity_distinct: "COL_RUN \<noteq> COL_BIKE" "COL_RUN \<noteq> COL_SWIM" "COL_BIKE \<noteq> COL_SWIM"
  using canonical_distinct by (simp_all add: canonical_columns_def)

lemma col_neq:
  "COL_DATETIME \<noteq> COL_HEIGHT" "COL_DATETIME \<noteq> COL_WEIGHT"
  "COL_DATETIME \<noteq> COL_WAIST" "COL_DATETIME \<noteq> COL_BMI"
  "COL_DATETIME \<noteq> COL_GENDER" "COL_DATETIME \<noteq> COL_RUN"
  "COL_DATETIME \<noteq> COL_BIKE" "COL_DATETIME \<noteq> COL_SWIM"
  "COL_HEIGHT \<noteq> COL_WEIGHT" "COL_HEIGHT \<noteq> COL_WAIST"
  "COL_HEIGHT \<noteq> COL_BMI" "COL_HEIGHT \<noteq> COL_GENDER" "COL_HEIGHT \<noteq> COL_RUN"
  "COL_HEIGHT \<noteq> COL_BIKE" "COL_HEIGHT \<noteq> COL_SWIM"
  "COL_WEIGHT \<noteq> COL_WAIST" "COL_WEIGHT \<noteq> COL_BMI"
  "COL_WEIGHT \<noteq> COL_GENDER" "COL_WEIGHT \<noteq> COL_RUN"
  "COL_WEIGHT \<noteq> COL_BIKE" "COL_WEIGHT \<noteq> COL_SWIM" "COL_WAIST \<noteq> COL_BMI"
  "COL_WAIST \<noteq> COL_GENDER" "COL_WAIST \<noteq> COL_RUN" "COL_WAIST \<noteq> COL_BIKE"
  "COL_WAIST \<noteq> COL_SWIM" "COL_BMI \<noteq> COL_GENDER" "COL_BMI \<noteq> COL_RUN"
  "COL_BMI \<noteq> COL_BIKE" "COL_BMI \<noteq> COL_SWIM" "COL_GENDER \<noteq> COL_RUN"
  "COL_GENDER \<noteq> COL_BIKE" "COL_GENDER \<noteq> COL_SWIM" "COL_RUN \<noteq> COL_BIKE"
  "COL_RUN \<noteq> COL_SWIM" "COL_BIKE \<noteq> COL_SWIM"
  using canonical_distinct by (simp_all add: canonical_columns_def)

lemmas col_neq_sym = col_neq [symmetric]

section \<open>Reading and writing the log\<close>

lemma cell_or_nan_same:
  "distinct cols \<Longrightarrow> length r = length cols \<Longrightarrow> map (cell_or_nan cols r) cols = r"
proof (induction cols r rule: list_induct2')
  case (4 c cs v vs)
  have tl: "map (cell_or_nan (c # cs) (v # vs)) cs = map (cell_or_nan cs vs) cs"
    using 4(2) by (intro map_cong) (auto simp: cell_or_nan_def cell_def)
  have hd: "cell_or_nan (c # cs) (v # vs) c = v"
    by (simp add: cell_or_nan_def cell_def)
  have ih: "map (cell_or_nan cs vs) cs = vs"
    using 4 by simp
  show ?case by (simp only: list.map hd tl ih)
qed simp_all

lemma reindex_same: "distinct cols \<Longrightarrow> length r = length cols \<Longrightarrow> reindex cols cols r = r"
  by (simp add: reindex_def cell_or_nan_same)

lemma cell_reindex:
  "c \<in> set newcols \<Longrightarrow> cell newcols (reindex newcols cols r) c = Some (cell_or_nan cols r c)"
  by (simp add: cell_def reindex_def map_of_zip_map)

lemma cell_DataFrame1: "cell (map fst entry) (map snd entry) c = map_of entry c"
  by (simp add: cell_def zip_map_fst_snd)

lemma cell_old_row:
  assumes "length r = length cols" and "c \<in> set cols" and "set cols \<subseteq> set newcols"
  shows "cell newcols (reindex newcols cols r) c = cell cols r c"
proof -
  from assms(1,2) obtain v where v: "map_of (zip cols r) c = Some v"
    by (metis map_of_zip_is_None not_Some_eq)
  have "c \<in> set newcols" using assms(2,3) by blast
  then have "cell newcols (reindex newcols cols r) c = Some (cell_or_nan cols r c)"
    by (rule cell_reindex)
  also have "cell_or_nan cols r c = v" by (simp add: cell_or_nan_def cell_def v)
  finally show ?thesis by (simp add: cell_def v)
qed

lemma cell_backfill_old:
  assumes "length r = length cols" "c \<in> set cols"
  shows "cell (cols @ m) (r @ z) c = cell cols r c"
proof -
  have "c \<in> dom (map_of (zip cols r))" using assms by simp
  then show ?thesis using assms(1) by (auto simp: cell_def map_add_def split: option.splits)
qed

lemma cell_backfill_new:
  assumes "length r = length cols" "c \<notin> set cols" "c \<in> set m"
  shows "cell (cols @ m) (r @ replicate (length m) v) c = Some v"
proof -
  have n: "map_of (zip cols r) c = None" using assms(1,2) by (simp add: map_of_zip_is_None)
  have z: "map_of (zip m (replicate (length m) v)) c = Some v"
    using assms(3) map_of_zip_map [of m "\<lambda>_. v"] by (simp add: map_replicate_const)
  show ?thesis using assms(1) by (simp add: cell_def map_add_def n z)
qed

lemma load_log_None: "load_log None = Inr \<lparr> columns = canonical_columns, rows = [] \<rparr>"
  by (simp add: load_log_def)

lemma load_log_Unparseable: "load_log (Some Unparseable) = Inl ParserError"
  by (simp add: load_log_def read_csv_def)

lemma load_log_Table:
  "load_log (Some (Table df)) =
     Inr \<lparr> columns = columns df @ filter (\<lambda>c. c \<notin> set (columns df)) [COL_RUN, COL_BIKE, COL_SWIM],
           rows = map (\<lambda>r. r @ replicate
                     (length (filter (\<lambda>c. c \<notin> set (columns df)) [COL_RUN, COL_BIKE, COL_SWIM]))
                     (Float (Fin 0))) (rows df) \<rparr>"
  using activity_distinct
  by (simp add: load_log_def read_csv_def add_column_def)

lemma load_log_has_activity:
  "load_log fs = Inr lg \<Longrightarrow> {COL_RUN, COL_BIKE, COL_SWIM} \<subseteq> set (columns lg)"
  by (cases fs; cases "the fs")
     (auto simp: load_log_None load_log_Table load_log_Unparseable canonical_columns_def)

lemma load_log_fixpoint:
  "{COL_RUN, COL_BIKE, COL_SWIM} \<subseteq> set (columns df) \<Longrightarrow> load_log (Some (Table df)) = Inr df"
  by (simp add: load_log_Table)

lemma pd_concat_same_columns:
  assumes "wf_df a" "set (columns b) \<subseteq> set (columns a)"
  shows "pd_concat a b =
           \<lparr> columns = columns a,
             rows = rows a @ map (reindex (columns a) (columns b)) (rows b) \<rparr>"
proof -
  have f: "filter (\<lambda>c. c \<notin> set (columns a)) (columns b) = []"
    using assms(2) by (auto simp: filter_empty_conv)
  have "map (reindex (columns a) (columns a)) (rows a) = rows a"
    using assms(1) by (intro map_idI) (auto simp: wf_df_def list_all_iff reindex_same)
  with f show ?thesis by (simp add: pd_concat_def Let_def)
qed

lemma pd_concat_DataFrame1:
  "columns (pd_concat lg (DataFrame1 entry))
     = columns lg @ filter (\<lambda>c. c \<notin> set (columns lg)) (map fst entry)"
  "rows (pd_concat lg (DataFrame1 entry))
     = map (reindex (columns (pd_concat lg (DataFrame1 entry))) (columns lg)) (rows lg)
       @ [reindex (columns (pd_concat lg (DataFrame1 entry))) (map fst entry) (map snd entry)]"
  by (simp_all add: pd_concat_def DataFrame1_def Let_def)

lemma save_log_Inr:
  assumes "load_log fs = Inr lg"
  shows "save_log entry fs = Inr (Some (Table (pd_concat lg (DataFrame1 entry))))"
    and "load_log (Some (Table (pd_concat lg (DataFrame1 entry))))
         = Inr (pd_concat lg (DataFrame1 entry))"
proof -
  show "save_log entry fs = Inr (Some (Table (pd_concat lg (DataFrame1 entry))))"
    using assms by (simp add: save_log_def to_csv_def)
  show "load_log (Some (Table (pd_concat lg (DataFrame1 entry))))
         = Inr (pd_concat lg (DataFrame1 entry))"
    using load_log_has_activity [OF assms]
    by (intro load_log_fixpoint) (simp add: pd_concat_DataFrame1(1))
qed

lemma log_entry_keys:
  "map fst (log_entry now height weight waist bmi gender run bike swim) = canonical_columns"
  by (simp add: log_entry_def canonical_columns_def)

lemma map_of_log_entry:
  "map_of (log_entry now height weight waist bmi gender run bike swim) COL_DATETIME = Some (Str now)"
  "map_of (log_entry now height weight waist bmi gender run bike swim) COL_HEIGHT = Some (Float height)"
  "map_of (log_entry now height weight waist bmi gender run bike swim) COL_WEIGHT = Some (Float weight)"
  "map_of (log_entry now height weight waist bmi gender run bike swim) COL_WAIST = Some (Float waist)"
  "map_of (log_entry now height weight waist bmi gender run bike swim) COL_BMI = Some (Float (round2 bmi))"
  "map_of (log_entry now height weight waist bmi gender run bike swim) COL_GENDER = Some gender"
  "map_of (log_entry now height weight waist bmi gender run bike swim) COL_RUN = Some (Float run)"
  "map_of (log_entry now height weight waist bmi gender run bike swim) COL_BIKE = Some (Float bike)"
  "map_of (log_entry now height weight waist bmi gender run bike swim) COL_SWIM = Some (Float swim)"
  by (simp_all add: log_entry_def col_neq col_neq_sym)

lemma cell_new_row:
  "c \<in> set cols \<Longrightarrow> map_of entry c = Some v \<Longrightarrow>
   cell cols (reindex cols (map fst entry) (map snd entry)) c = Some v"
  by (simp add: cell_reindex cell_or_nan_def cell_DataFrame1)

text \<open>
  C6. When the file does not exist, \<open>load_log\<close> returns the frame of the nine
  canonical columns (date-time, height, weight, waist, BMI, gender, running, cycling,
  swimming; pairwise different names) with no rows. That frame is empty, and the report
  page then shows the "no records yet" branch.
\<close>

theorem C6_absent_file:
  "load_log None = Inr \<lparr> columns = canonical_columns, rows = [] \<rparr>
   \<and> canonical_columns =
       [COL_DATETIME, COL_HEIGHT, COL_WEIGHT, COL_WAIST, COL_BMI, COL_GENDER,
        COL_RUN, COL_BIKE, COL_SWIM]
   \<and> distinct canonical_columns
   \<and> df_empty \<lparr> columns = canonical_columns, rows = [] \<rparr>
   \<and> report None = Inr None"
  by (simp add: load_log_None canonical_distinct df_empty_def report_def)
     (simp add: canonical_columns_def)

text \<open>
  C5 as stated promises the full canonical column set for every table \<open>load_log\<close> can
  parse. The loop of lines 18-20 adds only the three activity columns. A file holding just
  a date-time and a weight column loads with those two and the three activity columns:
  the BMI column (and height, waist, gender) is still missing.
\<close>

theorem C5_missing_base_column_counterexample:
  "load_log (Some (Table \<lparr> columns = [COL_DATETIME, COL_WEIGHT],
                            rows = [[Str ''2024-01-01 09:00'', Float (Fin 66)]] \<rparr>))
     = Inr \<lparr> columns = [COL_DATETIME, COL_WEIGHT, COL_RUN, COL_BIKE, COL_SWIM],
             rows = [[Str ''2024-01-01 09:00'', Float (Fin 66), Float (Fin 0), Float (Fin 0),
                      Float (Fin 0)]] \<rparr>
   \<and> COL_BMI \<notin> set [COL_DATETIME, COL_WEIGHT, COL_RUN, COL_BIKE, COL_SWIM]"
  by (simp add: load_log_Table col_neq col_neq_sym)

text \<open>
  C5, amended. For every stored table that \<open>load_log\<close> can parse, each of the three
  activity columns that is absent is added with 0.0 in every existing row; the columns of
  the result are those of the file and the three activity columns; the number of rows and
  every stored cell are unchanged; every row has a cell for every column. The result has
  the full canonical column set whenever the file has the six base columns.
\<close>

theorem C5_backfill_activity_columns:
  assumes "wf_df df"
  shows "\<exists>lg. load_log (Some (Table df)) = Inr lg
       \<and> set (columns lg) = set (columns df) \<union> {COL_RUN, COL_BIKE, COL_SWIM}
       \<and> wf_df lg
       \<and> length (rows lg) = length (rows df)
       \<and> (\<forall>i c. i < length (rows df) \<and> c \<in> set (columns df) \<longrightarrow>
             cell (columns lg) (rows lg ! i) c = cell (columns df) (rows df ! i) c)
       \<and> (\<forall>i c. i < length (rows df) \<and> c \<in> {COL_RUN, COL_BIKE, COL_SWIM}
                 \<and> c \<notin> set (columns df) \<longrightarrow>
             cell (columns lg) (rows lg ! i) c = Some (Float (Fin 0)))
       \<and> ({COL_DATETIME, COL_HEIGHT, COL_WEIGHT, COL_WAIST, COL_BMI, COL_GENDER}
            \<subseteq> set (columns df) \<longrightarrow> set (columns lg) \<supseteq> set canonical_columns)"
proof -
  let ?m = "filter (\<lambda>c. c \<notin> set (columns df)) [COL_RUN, COL_BIKE, COL_SWIM]"
  let ?z = "replicate (length ?m) (Float (Fin 0))"
  let ?lg = "\<lparr> columns = columns df @ ?m, rows = map (\<lambda>r. r @ ?z) (rows df) \<rparr>"
  have l: "load_log (Some (Table df)) = Inr ?lg" by (rule load_log_Table)
  have len: "length r = length (columns df)" if "r \<in> set (rows df)" for r
    using assms that by (simp add: wf_df_def list_all_iff)
  have dm: "distinct ?m" using activity_distinct by simp
  have cols: "set (columns ?lg) = set (columns df) \<union> {COL_RUN, COL_BIKE, COL_SWIM}"
    by auto
  have wf: "wf_df ?lg"
    using assms dm by (auto simp: wf_df_def list_all_iff)
  have old: "cell (columns ?lg) (rows ?lg ! i) c = cell (columns df) (rows df ! i) c"
    if "i < length (rows df)" "c \<in> set (columns df)" for i c
    using that len [of "rows df ! i"] by (simp add: cell_backfill_old)
  have new: "cell (columns ?lg) (rows ?lg ! i) c = Some (Float (Fin 0))"
    if "i < length (rows df)" "c \<in> {COL_RUN, COL_BIKE, COL_SWIM}" "c \<notin> set (columns df)" for i c
  proof -
    have "c \<in> set ?m" using that(2,3) by auto
    then show ?thesis using that(1,3) len [of "rows df ! i"]
      by (simp add: cell_backfill_new)
  qed
  have canon: "set canonical_columns \<subseteq> set (columns ?lg)"
    if "{COL_DATETIME, COL_HEIGHT, COL_WEIGHT, COL_WAIST, COL_BMI, COL_GENDER}
            \<subseteq> set (columns df)"
    using that unfolding cols by (auto simp: canonical_columns_def)
  have len2: "length (rows ?lg) = length (rows df)" by simp
  show ?thesis
    apply (intro exI [of _ ?lg] conjI allI impI)
    subgoal by (rule l)
    subgoal by (rule cols)
    subgoal by (rule wf)
    subgoal by (rule len2)
    subgoal for i c by (rule old) blast+
    subgoal for i c by (rule new) blast+
    subgoal by (rule canon)
    done
qed

text \<open>
  A file written before the cycling and swimming columns existed: one row, seven
  columns.
\<close>

theorem C5_backfill_activity_columns_witness:
  "\<exists>lg. load_log (Some (Table
            \<lparr> columns = [COL_DATETIME, COL_HEIGHT, COL_WEIGHT, COL_WAIST, COL_BMI, COL_GENDER,
                         COL_RUN],
              rows = [[Str ''2024-01-01 09:00'', Float (Fin 1.73), Float (Fin 90),
                       Float (Fin 95), Float (Fin 30.07), Str MALE, Float (Fin 5)]] \<rparr>)) = Inr lg
      \<and> set canonical_columns \<subseteq> set (columns lg)
      \<and> wf_df lg
      \<and> length (rows lg) = 1
      \<and> cell (columns lg) (rows lg ! 0) COL_BMI = Some (Float (Fin 30.07))
      \<and> cell (columns lg) (rows lg ! 0) COL_RUN = Some (Float (Fin 5))
      \<and> cell (columns lg) (rows lg ! 0) COL_BIKE = Some (Float (Fin 0))
      \<and> cell (columns lg) (rows lg ! 0) COL_SWIM = Some (Float (Fin 0))"
proof -
  let ?df = "\<lparr> columns = [COL_DATETIME, COL_HEIGHT, COL_WEIGHT, COL_WAIST, COL_BMI, COL_GENDER,
                           COL_RUN],
                rows = [[Str ''2024-01-01 09:00'', Float (Fin 1.73), Float (Fin 90),
                       Float (Fin 95), Float (Fin 30.07), Str MALE, Float (Fin 5)]] \<rparr>"
  have w: "wf_df ?df"
    by (simp add: wf_df_def col_neq col_neq_sym)
  from C5_backfill_activity_columns [OF w] obtain lg where
    l: "load_log (Some (Table ?df)) = Inr lg"
    and wf: "wf_df lg"
    and n: "length (rows lg) = length (rows ?df)"
    and old: "\<forall>i c. i < length (rows ?df) \<and> c \<in> set (columns ?df) \<longrightarrow>
             cell (columns lg) (rows lg ! i) c = cell (columns ?df) (rows ?df ! i) c"
    and new: "\<forall>i c. i < length (rows ?df) \<and> c \<in> {COL_RUN, COL_BIKE, COL_SWIM}
                 \<and> c \<notin> set (columns ?df) \<longrightarrow>
             cell (columns lg) (rows lg ! i) c = Some (Float (Fin 0))"
    and canon: "{COL_DATETIME, COL_HEIGHT, COL_WEIGHT, COL_WAIST, COL_BMI, COL_GENDER}
            \<subseteq> set (columns ?df) \<longrightarrow> set (columns lg) \<supseteq> set canonical_columns"
    by blast
  have c: "set canonical_columns \<subseteq> set (columns lg)" using canon by simp
  have n1: "length (rows lg) = 1" using n by simp
  have b: "cell (columns lg) (rows lg ! 0) COL_BMI = Some (Float (Fin 30.07))"
    using old [rule_format, of 0 COL_BMI] by (simp add: cell_def col_neq col_neq_sym)
  have r: "cell (columns lg) (rows lg ! 0) COL_RUN = Some (Float (Fin 5))"
    using old [rule_format, of 0 COL_RUN] by (simp add: cell_def col_neq col_neq_sym)
  have k: "cell (columns lg) (rows lg ! 0) COL_BIKE = Some (Float (Fin 0))"
    using new [rule_format, of 0 COL_BIKE] by (simp add: col_neq col_neq_sym)
  have s: "cell (columns lg) (rows lg ! 0) COL_SWIM = Some (Float (Fin 0))"
    using new [rule_format, of 0 COL_SWIM] by (simp add: col_neq col_neq_sym)
  from l c wf n1 b r k s show ?thesis by blast
qed

lemma is_timestamp_example:
  "is_timestamp ''2024-01-01 09:00''" "is_timestamp ''2024-01-02 09:00''"
  by (simp_all add: is_timestamp_def is_digit_def num2_def digit_val_def days_in_month_def)

lemma append_entry:
  assumes "wf_df lg" and "set (columns lg) = set canonical_columns"
  shows "pd_concat lg (DataFrame1 (log_entry now height weight waist bmi gender run bike swim))
         = \<lparr> columns = columns lg,
             rows = rows lg @ [reindex (columns lg) canonical_columns
                       (map snd (log_entry now height weight waist bmi gender run bike swim))] \<rparr>"
proof -
  let ?e = "log_entry now height weight waist bmi gender run bike swim"
  have k: "set (columns (DataFrame1 ?e)) \<subseteq> set (columns lg)"
    using assms(2) by (simp add: DataFrame1_def log_entry_keys)
  have c: "columns (DataFrame1 ?e) = canonical_columns"
    by (simp add: DataFrame1_def log_entry_keys)
  have r: "rows (DataFrame1 ?e) = [map snd ?e]" by (simp add: DataFrame1_def)
  show ?thesis
    unfolding pd_concat_same_columns [OF assms(1) k] c r by simp
qed

lemma new_row_cells:
  assumes "set cols = set canonical_columns"
  shows "cell cols (reindex cols canonical_columns
            (map snd (log_entry now height weight waist bmi gender run bike swim))) COL_DATETIME
         = Some (Str now)"
    and "cell cols (reindex cols canonical_columns
            (map snd (log_entry now height weight waist bmi gender run bike swim))) COL_HEIGHT
         = Some (Float height)"
    and "cell cols (reindex cols canonical_columns
            (map snd (log_entry now height weight waist bmi gender run bike swim))) COL_WEIGHT
         = Some (Float weight)"
    and "cell cols (reindex cols canonical_columns
            (map snd (log_entry now height weight waist bmi gender run bike swim))) COL_WAIST
         = Some (Float waist)"
    and "cell cols (reindex cols canonical_columns
            (map snd (log_entry now height weight waist bmi gender run bike swim))) COL_BMI
         = Some (Float (round2 bmi))"
    and "cell cols (reindex cols canonical_columns
            (map snd (log_entry now height weight waist bmi gender run bike swim))) COL_GENDER
         = Some gender"
    and "cell cols (reindex cols canonical_columns
            (map snd (log_entry now height weight waist bmi gender run bike swim))) COL_RUN
         = Some (Float run)"
    and "cell cols (reindex cols canonical_columns
            (map snd (log_entry now height weight waist bmi gender run bike swim))) COL_BIKE
         = Some (Float bike)"
    and "cell cols (reindex cols canonical_columns
            (map snd (log_entry now height weight waist bmi gender run bike swim))) COL_SWIM
         = Some (Float swim)"
proof -
  have mem: "COL_DATETIME \<in> set cols" "COL_HEIGHT \<in> set cols"
    "COL_WEIGHT \<in> set cols" "COL_WAIST \<in> set cols"
    "COL_BMI \<in> set cols" "COL_GENDER \<in> set cols"
    "COL_RUN \<in> set cols" "COL_BIKE \<in> set cols"
    "COL_SWIM \<in> set cols"
    unfolding assms by (simp_all add: canonical_columns_def)
  note n = cell_new_row [of _ cols "log_entry now height weight waist bmi gender run bike swim",
      unfolded log_entry_keys]
  show "cell cols (reindex cols canonical_columns
            (map snd (log_entry now height weight waist bmi gender run bike swim))) COL_DATETIME
         = Some (Str now)"
    by (rule n [OF mem(1) map_of_log_entry(1)])
  show "cell cols (reindex cols canonical_columns
            (map snd (log_entry now height weight waist bmi gender run bike swim))) COL_HEIGHT
         = Some (Float height)"
    by (rule n [OF mem(2) map_of_log_entry(2)])
  show "cell cols (reindex cols canonical_columns
            (map snd (log_entry now height weight waist bmi gender run bike swim))) COL_WEIGHT
         = Some (Float weight)"
    by (rule n [OF mem(3) map_of_log_entry(3)])
  show "cell cols (reindex cols canonical_columns
            (map snd (log_entry now height weight waist bmi gender run bike swim))) COL_WAIST
         = Some (Float waist)"
    by (rule n [OF mem(4) map_of_log_entry(4)])
  show "cell cols (reindex cols canonical_columns
            (map snd (log_entry now height weight waist bmi gender run bike swim))) COL_BMI
         = Some (Float (round2 bmi))"
    by (rule n [OF mem(5) map_of_log_entry(5)])
  show "cell cols (reindex cols canonical_columns
            (map snd (log_entry now height weight waist bmi gender run bike swim))) COL_GENDER
         = Some gender"
    by (rule n [OF mem(6) map_of_log_entry(6)])
  show "cell cols (reindex cols canonical_columns
            (map snd (log_entry now height weight waist bmi gender run bike swim))) COL_RUN
         = Some (Float run)"
    by (rule n [OF mem(7) map_of_log_entry(7)])
  show "cell cols (reindex cols canonical_columns
            (map snd (log_entry now height weight waist bmi gender run bike swim))) COL_BIKE
         = Some (Float bike)"
    by (rule n [OF mem(8) map_of_log_entry(8)])
  show "cell cols (reindex cols canonical_columns
            (map snd (log_entry now height weight waist bmi gender run bike swim))) COL_SWIM
         = Some (Float swim)"
    by (rule n [OF mem(9) map_of_log_entry(9)])
qed




section \<open>The rows of the chart\<close>

lemma is_datetime_cell_or_nan:
  "is_datetime (cell cols r c) \<Longrightarrow> is_datetime (Some (cell_or_nan cols r c))"
  by (cases "cell cols r c") (simp_all add: is_datetime_def cell_or_nan_def)

lemma to_datetime_cells:
  assumes "list_all (\<lambda>r. is_datetime (cell cols r c)) rs"
  shows "to_datetime (map (\<lambda>r. cell_or_nan cols r c) rs) = Inr (map (\<lambda>r. cell_or_nan cols r c) rs)"
proof -
  have "list_all (\<lambda>v. is_datetime (Some v)) (map (\<lambda>r. cell_or_nan cols r c) rs)"
    using assms by (simp add: list_all_iff is_datetime_cell_or_nan)
  then show ?thesis by (simp add: to_datetime_def)
qed

lemma generate_bmi_plot_points:
  assumes "COL_DATETIME \<in> set (columns df)" and "COL_WEIGHT \<in> set (columns df)"
    and "list_all (\<lambda>r. is_datetime (cell (columns df) r COL_DATETIME)) (tail 10 (rows df))"
  shows "generate_bmi_plot df =
           Inr (map (\<lambda>r. (cell_or_nan (columns df) r COL_DATETIME,
                          cell_or_nan (columns df) r COL_WEIGHT))
                    (tail 10 (rows df)))"
  using assms(1,2) to_datetime_cells [OF assms(3)]
  by (simp add: generate_bmi_plot_def getcol_def Let_def and_then_def zip_map_map
      zip_same_conv_map)

lemma generate_bmi_plot_KeyError:
  "COL_DATETIME \<notin> set (columns df) \<Longrightarrow> generate_bmi_plot df = Inl KeyError"
  by (simp add: generate_bmi_plot_def getcol_def Let_def and_then_def)

lemma list_all_tail: "list_all P xs \<Longrightarrow> list_all P (tail n xs)"
  by (auto simp: tail_def list_all_iff dest: in_set_dropD)

text \<open>
  C9 as stated has the chart take exactly ten rows, sorted by date-time. The script sorts
  nothing: \<open>generate_bmi_plot\<close> hands over the rows of \<^verbatim>\<open>df.tail(10)\<close> as stored. A log of
  two rows whose second row carries the earlier date-time is plotted in that order, the
  later date-time first, and with two points.
\<close>

theorem C9_unsorted_log_counterexample:
  "generate_bmi_plot
     \<lparr> columns = canonical_columns,
       rows = [[Str ''2024-01-02 09:00'', Float (Fin 1.73), Float (Fin 66), Float (Fin 83),
                Float (Fin 22.05), Str MALE, Float (Fin 0), Float (Fin 0), Float (Fin 0)],
               [Str ''2024-01-01 09:00'', Float (Fin 1.73), Float (Fin 67), Float (Fin 83),
                Float (Fin 22.39), Str MALE, Float (Fin 0), Float (Fin 0), Float (Fin 0)]] \<rparr>
   = Inr [(Str ''2024-01-02 09:00'', Float (Fin 66)), (Str ''2024-01-01 09:00'', Float (Fin 67))]
   \<and> \<not> sorted_wrt ts_le [Str ''2024-01-02 09:00'', Str ''2024-01-01 09:00'']"
proof -
  let ?df = "\<lparr> columns = canonical_columns,
       rows = [[Str ''2024-01-02 09:00'', Float (Fin 1.73), Float (Fin 66), Float (Fin 83),
                Float (Fin 22.05), Str MALE, Float (Fin 0), Float (Fin 0), Float (Fin 0)],
               [Str ''2024-01-01 09:00'', Float (Fin 1.73), Float (Fin 67), Float (Fin 83),
                Float (Fin 22.39), Str MALE, Float (Fin 0), Float (Fin 0), Float (Fin 0)]] \<rparr>"
  have m: "COL_DATETIME \<in> set (columns ?df)" "COL_WEIGHT \<in> set (columns ?df)"
    by (simp_all add: canonical_columns_def)
  have r: "list_all (\<lambda>r. is_datetime (cell (columns ?df) r COL_DATETIME)) (tail 10 (rows ?df))"
    by (simp add: tail_def canonical_columns_def cell_def is_datetime_def is_timestamp_example)
  have g: "generate_bmi_plot ?df
           = Inr [(Str ''2024-01-02 09:00'', Float (Fin 66)),
                  (Str ''2024-01-01 09:00'', Float (Fin 67))]"
    unfolding generate_bmi_plot_points [OF m r]
    by (simp add: tail_def canonical_columns_def cell_or_nan_def cell_def col_neq col_neq_sym)
  have u: "\<not> sorted_wrt ts_le [Str ''2024-01-02 09:00'', Str ''2024-01-01 09:00'']"
    by (simp add: ts_le_def)
  from g u show ?thesis by (rule conjI)
qed

text \<open>
  C9, amended. For a log that has the date-time and the weight column and whose last ten
  date-time cells are date-time texts of the script's form, the chart consumes the last
  ten rows of the loaded log, all rows when there are fewer than ten, in stored order and
  unsorted. They are in ascending date-time order whenever the stored rows are (for any
  order relation \<open>R\<close> on the date-time cells).
\<close>

theorem C9_chart_rows:
  assumes "COL_DATETIME \<in> set (columns df)" and "COL_WEIGHT \<in> set (columns df)"
    and "list_all (\<lambda>r. is_datetime (cell (columns df) r COL_DATETIME)) (tail 10 (rows df))"
  shows "\<exists>points. generate_bmi_plot df = Inr points
       \<and> points = map (\<lambda>r. (cell_or_nan (columns df) r COL_DATETIME,
                             cell_or_nan (columns df) r COL_WEIGHT))
                       (drop (length (rows df) - 10) (rows df))
       \<and> length points = min 10 (length (rows df))
       \<and> (sorted_wrt R (map (\<lambda>r. cell_or_nan (columns df) r COL_DATETIME) (rows df))
            \<longrightarrow> sorted_wrt R (map fst points))"
proof -
  let ?pts = "map (\<lambda>r. (cell_or_nan (columns df) r COL_DATETIME,
                        cell_or_nan (columns df) r COL_WEIGHT))
                  (drop (length (rows df) - 10) (rows df))"
  have g: "generate_bmi_plot df = Inr ?pts"
    using generate_bmi_plot_points [OF assms] by (simp add: tail_def)
  have n: "length ?pts = min 10 (length (rows df))" by simp
  have f: "map fst ?pts
           = drop (length (rows df) - 10)
               (map (\<lambda>r. cell_or_nan (columns df) r COL_DATETIME) (rows df))"
    by (simp add: drop_map comp_def)
  have s: "sorted_wrt R (map fst ?pts)"
    if "sorted_wrt R (map (\<lambda>r. cell_or_nan (columns df) r COL_DATETIME) (rows df))"
    unfolding f using that by (rule sorted_wrt_drop)
  from g n s show ?thesis by blast
qed

text \<open>
  Eleven rows in ascending date-time order: the chart takes the last ten, still
  ascending.
\<close>

theorem C9_chart_rows_witness:
  "generate_bmi_plot
     \<lparr> columns = [COL_DATETIME, COL_WEIGHT],
       rows = [[Str ''2024-01-01 09:00'', Float (Fin 70)],
               [Str ''2024-01-02 09:00'', Float (Fin 69)],
               [Str ''2024-01-03 09:00'', Float (Fin 68)],
               [Str ''2024-01-04 09:00'', Float (Fin 67)],
               [Str ''2024-01-05 09:00'', Float (Fin 66)],
               [Str ''2024-01-06 09:00'', Float (Fin 65)],
               [Str ''2024-01-07 09:00'', Float (Fin 64)],
               [Str ''2024-01-08 09:00'', Float (Fin 63)],
               [Str ''2024-01-09 09:00'', Float (Fin 62)],
               [Str ''2024-01-10 09:00'', Float (Fin 61)],
               [Str ''2024-01-11 09:00'', Float (Fin 60)]] \<rparr>
   = Inr [(Str ''2024-01-02 09:00'', Float (Fin 69)),
          (Str ''2024-01-03 09:00'', Float (Fin 68)),
          (Str ''2024-01-04 09:00'', Float (Fin 67)),
          (Str ''2024-01-05 09:00'', Float (Fin 66)),
          (Str ''2024-01-06 09:00'', Float (Fin 65)),
          (Str ''2024-01-07 09:00'', Float (Fin 64)),
          (Str ''2024-01-08 09:00'', Float (Fin 63)),
          (Str ''2024-01-09 09:00'', Float (Fin 62)),
          (Str ''2024-01-10 09:00'', Float (Fin 61)),
          (Str ''2024-01-11 09:00'', Float (Fin 60))]
   \<and> sorted_wrt ts_le
         [Str ''2024-01-02 09:00'', Str ''2024-01-03 09:00'', Str ''2024-01-04 09:00'',
          Str ''2024-01-05 09:00'', Str ''2024-01-06 09:00'', Str ''2024-01-07 09:00'',
          Str ''2024-01-08 09:00'', Str ''2024-01-09 09:00'', Str ''2024-01-10 09:00'',
          Str ''2024-01-11 09:00'']"
proof -
  let ?df = "\<lparr> columns = [COL_DATETIME, COL_WEIGHT],
       rows = [[Str ''2024-01-01 09:00'', Float (Fin 70)],
               [Str ''2024-01-02 09:00'', Float (Fin 69)],
               [Str ''2024-01-03 09:00'', Float (Fin 68)],
               [Str ''2024-01-04 09:00'', Float (Fin 67)],
               [Str ''2024-01-05 09:00'', Float (Fin 66)],
               [Str ''2024-01-06 09:00'', Float (Fin 65)],
               [Str ''2024-01-07 09:00'', Float (Fin 64)],
               [Str ''2024-01-08 09:00'', Float (Fin 63)],
               [Str ''2024-01-09 09:00'', Float (Fin 62)],
               [Str ''2024-01-10 09:00'', Float (Fin 61)],
               [Str ''2024-01-11 09:00'', Float (Fin 60)]] \<rparr>"
  have a: "COL_DATETIME \<in> set (columns ?df)" and b: "COL_WEIGHT \<in> set (columns ?df)"
    by simp_all
  have t: "is_timestamp ''2024-01-02 09:00''" "is_timestamp ''2024-01-03 09:00''"
    "is_timestamp ''2024-01-04 09:00''" "is_timestamp ''2024-01-05 09:00''"
    "is_timestamp ''2024-01-06 09:00''" "is_timestamp ''2024-01-07 09:00''"
    "is_timestamp ''2024-01-08 09:00''" "is_timestamp ''2024-01-09 09:00''"
    "is_timestamp ''2024-01-10 09:00''" "is_timestamp ''2024-01-11 09:00''"
    by (simp_all add: is_timestamp_def is_digit_def num2_def digit_val_def days_in_month_def)
  have c: "list_all (\<lambda>r. is_datetime (cell (columns ?df) r COL_DATETIME))
             (tail 10 (rows ?df))"
    by (simp add: tail_def cell_def is_datetime_def t)
  have s: "sorted_wrt ts_le (map (\<lambda>r. cell_or_nan (columns ?df) r COL_DATETIME) (rows ?df))"
    by (simp add: cell_or_nan_def cell_def ts_le_def)
  from C9_chart_rows [OF a b c, of ts_le] s
  show ?thesis
    by (simp add: cell_or_nan_def cell_def col_neq col_neq_sym)
qed

section \<open>The judgments of the report\<close>

lemma rejudge_floats:
  assumes "cell cols latest COL_WEIGHT = Some (Float weight)"
    and "cell cols latest COL_WAIST = Some (Float waist)"
    and "cell cols latest COL_HEIGHT = Some (Float height)"
    and "cell cols latest COL_BMI = Some (Float bmi)"
    and "cell cols latest COL_GENDER = Some gender"
  shows "rejudge cols latest =
           Inr \<lparr> pdf_weight_msg = weight_msg weight (ideal_weight height),
                 pdf_bmi_msg = bmi_msg bmi,
                 pdf_waist_msg = waist_msg waist gender \<rparr>"
  using assms by (simp add: rejudge_def getitem_def and_then_def as_float_def)

lemma rejudge_InrD:
  assumes "rejudge cols latest = Inr j"
  shows "\<exists>weight waist height bmi gender.
           cell cols latest COL_WEIGHT = Some (Float weight)
         \<and> cell cols latest COL_WAIST = Some (Float waist)
         \<and> cell cols latest COL_HEIGHT = Some (Float height)
         \<and> cell cols latest COL_BMI = Some (Float bmi)
         \<and> cell cols latest COL_GENDER = Some gender
         \<and> j = \<lparr> pdf_weight_msg = weight_msg weight (ideal_weight height),
                 pdf_bmi_msg = bmi_msg bmi,
                 pdf_waist_msg = waist_msg waist gender \<rparr>"
  using assms
  by (auto simp: rejudge_def getitem_def and_then_def as_float_def
      split: option.splits pyval.splits)

lemma diagnose_InrD:
  assumes "diagnose height weight waist gender = Inr d"
  shows "res_weight_msg d = weight_msg weight (ideal_weight height)"
    and "res_waist_msg d = waist_msg waist gender"
    and "res_bmi_msg d = bmi_msg (res_bmi d)"
  using assms by (auto simp: diagnose_def split: sum.splits)

lemma diagnose_form_height: "\<exists>d. diagnose form_height weight waist gender = Inr d"
proof -
  have "(1.73::real) \<noteq> 0" by simp
  from diagnose_nonzero [OF this, of weight waist gender] show ?thesis
    unfolding form_height_def by blast
qed

lemma first_entry:
  "pd_concat \<lparr> columns = canonical_columns, rows = [] \<rparr>
     (DataFrame1 (log_entry now height weight waist bmi gender run bike swim))
   = \<lparr> columns = canonical_columns,
       rows = [[Str now, Float height, Float weight, Float waist, Float (round2 bmi), gender,
                Float run, Float bike, Float swim]] \<rparr>"
proof -
  let ?e = "log_entry now height weight waist bmi gender run bike swim"
  have w: "wf_df \<lparr> columns = canonical_columns, rows = [] \<rparr>"
    by (simp add: wf_df_def canonical_distinct)
  have v: "map snd ?e = [Str now, Float height, Float weight, Float waist, Float (round2 bmi),
                gender, Float run, Float bike, Float swim]"
    by (simp add: log_entry_def)
  have r: "reindex canonical_columns canonical_columns
             [Str now, Float height, Float weight, Float waist, Float (round2 bmi),
                gender, Float run, Float bike, Float swim]
           = [Str now, Float height, Float weight, Float waist, Float (round2 bmi),
                gender, Float run, Float bike, Float swim]"
    by (rule reindex_same [OF canonical_distinct]) (simp add: canonical_columns_def)
  show ?thesis
    by (subst pd_concat_same_columns [OF w])
       (simp_all add: DataFrame1_def log_entry_keys v r)
qed

lemma submit_None:
  assumes "diagnose form_height weight waist gender = Inr d"
  shows "submit now weight waist gender run bike swim None =
           Inr (d, Some (Table \<lparr> columns = canonical_columns,
                  rows = [[Str now, Float form_height, Float weight, Float waist,
                           Float (round2 (res_bmi d)), gender, Float run, Float bike,
                           Float swim]] \<rparr>))"
  using assms by (simp add: submit_def save_log_def load_log_None to_csv_def first_entry)

lemma submit_report:
  assumes "load_log fs = Inr lg" and "is_log lg" and "is_timestamp now"
    and "diagnose form_height weight waist gender = Inr d"
  shows "\<exists>fs' points.
           submit now weight waist gender run bike swim fs = Inr (d, fs')
         \<and> report fs' =
             Inr (Some (\<lparr> pdf_weight_msg = weight_msg weight (ideal_weight form_height),
                          pdf_bmi_msg = bmi_msg (round2 (res_bmi d)),
                          pdf_waist_msg = waist_msg waist gender \<rparr>, points))"
proof -
  let ?e = "log_entry now form_height weight waist (res_bmi d) gender run bike swim"
  let ?new = "reindex (columns lg) canonical_columns (map snd ?e)"
  let ?lg' = "\<lparr> columns = columns lg, rows = rows lg @ [?new] \<rparr>"
  have wf: "wf_df lg" and cs: "set (columns lg) = set canonical_columns"
    and hr: "list_all (health_row (columns lg)) (rows lg)"
    using assms(2) by (simp_all add: is_log_def)
  have pc: "pd_concat lg (DataFrame1 ?e) = ?lg'"
    by (rule append_entry [OF wf cs])
  have s: "save_log ?e fs = Inr (Some (Table ?lg'))"
    using save_log_Inr(1) [OF assms(1), of ?e] unfolding pc .
  have l: "load_log (Some (Table ?lg')) = Inr ?lg'"
    using save_log_Inr(2) [OF assms(1), of ?e] unfolding pc .
  note cells = new_row_cells [OF cs, of now form_height weight waist "res_bmi d" gender
      run bike swim]
  have mem: "COL_DATETIME \<in> set (columns ?lg')" "COL_WEIGHT \<in> set (columns ?lg')"
    using cs by (simp_all add: canonical_columns_def)
  have sub: "submit now weight waist gender run bike swim fs = Inr (d, Some (Table ?lg'))"
    using assms(4) s by (simp add: submit_def)
  have ne: "\<not> df_empty ?lg'"
    using mem(1) by (auto simp: df_empty_def)
  have j: "rejudge (columns ?lg') (last (rows ?lg')) =
             Inr \<lparr> pdf_weight_msg = weight_msg weight (ideal_weight form_height),
                   pdf_bmi_msg = bmi_msg (round2 (res_bmi d)),
                   pdf_waist_msg = waist_msg waist gender \<rparr>"
    using cells by (intro rejudge_floats) simp_all
  have old: "list_all (\<lambda>r. is_datetime (cell (columns lg) r COL_DATETIME)) (rows lg)"
    using hr by (simp add: list_all_iff health_row_def)
  have "list_all (\<lambda>r. is_datetime (cell (columns ?lg') r COL_DATETIME)) (rows ?lg')"
    using old assms(3) cells(1) by (simp add: is_datetime_def)
  then have rd: "list_all (\<lambda>r. is_datetime (cell (columns ?lg') r COL_DATETIME))
                   (tail 10 (rows ?lg'))"
    by (rule list_all_tail)
  obtain points where p: "generate_bmi_plot ?lg' = Inr points"
    using generate_bmi_plot_points [OF mem rd] by blast
  have "report (Some (Table ?lg')) =
             Inr (Some (\<lparr> pdf_weight_msg = weight_msg weight (ideal_weight form_height),
                          pdf_bmi_msg = bmi_msg (round2 (res_bmi d)),
                          pdf_waist_msg = waist_msg waist gender \<rparr>, points))"
    unfolding report_def l using ne j p by simp
  with sub show ?thesis by blast
qed

text \<open>
  The stored BMI is rounded to 2 decimals. Against a threshold that is an even number of
  hundredths, the rounded value is below the threshold exactly when the value itself is
  more than half a hundredth below it.
\<close>

lemma int_less_shift:
  fixes f N :: int and t :: real
  assumes "- 1 / 2 \<le> t" and "t < 1 / 2"
  shows "(f < N) = (real_of_int f + t < real_of_int N - 1 / 2)"
proof
  assume "f < N"
  then have "f + 1 \<le> N" by linarith
  then have "real_of_int (f + 1) \<le> real_of_int N" by (simp only: of_int_le_iff)
  then show "real_of_int f + t < real_of_int N - 1 / 2" using assms(2) by simp
next
  assume "real_of_int f + t < real_of_int N - 1 / 2"
  then have "real_of_int f < real_of_int N" using assms(1) by linarith
  then show "f < N" by (simp only: of_int_less_iff)
qed

lemma round2_flt_iff:
  fixes N :: int
  assumes "even N"
  shows "flt (round2 (Fin b)) (Fin (of_int N / 100)) \<longleftrightarrow> b * 100 < of_int N - 1 / 2"
proof -
  define f where "f = \<lfloor>b * 100\<rfloor>"
  define d where "d = b * 100 - of_int f"
  have d0: "0 \<le> d" and d1: "d < 1"
    unfolding d_def f_def by linarith+
  have y: "b * 100 = of_int f + d" by (simp add: d_def)
  let ?r = "if d < 1 / 2 then f else if 1 / 2 < d then f + 1 else if even f then f else f + 1"
  have dv: "(a / 100 < c / 100) = (a < c)" for a c :: real by simp
  have up: "(f + 1 < N) = (real_of_int f + d < real_of_int N - 1 / 2)" if "1 / 2 \<le> d"
    using int_less_shift [of "d - 1" "f + 1" N] that d1 by simp
  have "flt (round2 (Fin b)) (Fin (of_int N / 100))
        \<longleftrightarrow> real_of_int ?r / 100 < real_of_int N / 100"
    unfolding round2.simps Let_def flt.simps f_def [symmetric] d_def [symmetric]
    by (rule refl)
  also have "\<dots> \<longleftrightarrow> real_of_int ?r < real_of_int N" by (rule dv)
  also have "\<dots> \<longleftrightarrow> ?r < N" by (simp only: of_int_less_iff)
  also have "\<dots> \<longleftrightarrow> of_int f + d < of_int N - 1 / 2"
  proof (cases "d < 1 / 2")
    case True
    then show ?thesis using int_less_shift [of d f N] d0 by simp
  next
    case False
    then have h: "1 / 2 \<le> d" by simp
    show ?thesis
    proof (cases "even f")
      case True
      with assms have "f \<noteq> N - 1" by auto
      then have "(f < N) = (f + 1 < N)" by linarith
      then show ?thesis using False up [OF h] by simp
    next
      case False
      then show ?thesis using \<open>\<not> d < 1 / 2\<close> up [OF h] by simp
    qed
  qed
  finally show ?thesis by (simp add: y)
qed

lemma bmi_msg_round2:
  "bmi_msg (round2 (Fin b)) =
     (if b < 18.495 then THIN
      else if b < 24.995 then STANDARD
      else if b < 29.995 then OBESE_1
      else OBESE_HIGH)"
proof -
  have a: "flt (round2 (Fin b)) (Fin 18.5) \<longleftrightarrow> b < 18.495"
    using round2_flt_iff [of 1850 b] by simp linarith
  have c: "flt (round2 (Fin b)) (Fin 25) \<longleftrightarrow> b < 24.995"
    using round2_flt_iff [of 2500 b] by simp linarith
  have e: "flt (round2 (Fin b)) (Fin 30) \<longleftrightarrow> b < 29.995"
    using round2_flt_iff [of 3000 b] by simp linarith
  show ?thesis unfolding bmi_msg_def a c e by (rule refl)
qed

text \<open>
  C10. A gender other than the male label, a text outside the two options or an empty
  cell included, is judged against 90, exactly as the female label is: normal when the
  waist is below 90, metabolic risk otherwise. This holds for \<open>waist_msg\<close>, for the
  judgment \<open>diagnose\<close> returns at entry time, and for the one \<open>rejudge\<close> returns at
  report time; no gender value makes the waist judgment fail.
\<close>

theorem C10_non_male_gender:
  assumes "gender \<noteq> Str MALE"
  shows "waist_msg waist gender = (if flt waist (Fin 90) then WAIST_NORMAL else METABO)
       \<and> waist_msg (Fin w) gender = (if w < 90 then WAIST_NORMAL else METABO)
       \<and> waist_msg waist gender = waist_msg waist (Str FEMALE)
       \<and> (h \<noteq> 0 \<longrightarrow>
            (\<exists>d. diagnose (Fin h) weight waist gender = Inr d
               \<and> res_waist_msg d = (if flt waist (Fin 90) then WAIST_NORMAL else METABO)))
       \<and> (cell cols latest COL_GENDER = Some gender
            \<and> cell cols latest COL_WAIST = Some (Float waist)
            \<and> rejudge cols latest = Inr j \<longrightarrow>
            pdf_waist_msg j = (if flt waist (Fin 90) then WAIST_NORMAL else METABO))"
proof -
  have f: "Str FEMALE \<noteq> Str MALE" using gender_labels_distinct by simp
  have a: "waist_msg x gender = (if flt x (Fin 90) then WAIST_NORMAL else METABO)" for x
    using assms by (simp add: waist_msg_def)
  have b: "waist_msg waist gender = waist_msg waist (Str FEMALE)"
    using assms f by (simp add: waist_msg_def)
  have c: "\<exists>d. diagnose (Fin h) weight waist gender = Inr d
               \<and> res_waist_msg d = (if flt waist (Fin 90) then WAIST_NORMAL else METABO)"
    if "h \<noteq> 0"
    using diagnose_nonzero [OF that, of weight waist gender] a [of waist] by auto
  have d: "pdf_waist_msg j = (if flt waist (Fin 90) then WAIST_NORMAL else METABO)"
    if "cell cols latest COL_GENDER = Some gender"
       "cell cols latest COL_WAIST = Some (Float waist)" "rejudge cols latest = Inr j"
    using rejudge_InrD [OF that(3)] that(1,2) a [of waist] by auto
  from a [of waist] a [of "Fin w"] b c d show ?thesis by simp
qed

text \<open>
  Waist 87 is normal for a gender text outside the options and metabolic risk for the
  male label; an empty gender cell is judged against 90 as well.
\<close>

theorem C10_non_male_gender_witness:
  "waist_msg (Fin 87) (Str ''other'') = WAIST_NORMAL
   \<and> waist_msg (Fin 87) (Str MALE) = METABO
   \<and> waist_msg (Fin 90) (Float NaN) = METABO
   \<and> (\<exists>d. diagnose (Fin 1.73) (Fin 66) (Fin 87) (Str ''other'') = Inr d
          \<and> res_waist_msg d = WAIST_NORMAL)
   \<and> (\<exists>j. rejudge canonical_columns
               [Str ''2024-01-01 09:00'', Float (Fin 1.73), Float (Fin 66), Float (Fin 87),
                Float (Fin 22.05), Float NaN, Float (Fin 0), Float (Fin 0), Float (Fin 0)]
             = Inr j
          \<and> pdf_waist_msg j = WAIST_NORMAL)"
proof -
  let ?row = "[Str ''2024-01-01 09:00'', Float (Fin 1.73), Float (Fin 66), Float (Fin 87),
               Float (Fin 22.05), Float NaN, Float (Fin 0), Float (Fin 0), Float (Fin 0)]"
  let ?j = "\<lparr> pdf_weight_msg = weight_msg (Fin 66) (ideal_weight (Fin 1.73)),
              pdf_bmi_msg = bmi_msg (Fin 22.05),
              pdf_waist_msg = waist_msg (Fin 87) (Float NaN) \<rparr>"
  have g: "Str ''other'' \<noteq> Str MALE" "Float NaN \<noteq> Str MALE"
    by (simp_all add: MALE_def)
  have h: "(1.73::real) \<noteq> 0" by simp
  have c: "cell canonical_columns ?row COL_WEIGHT = Some (Float (Fin 66))"
    "cell canonical_columns ?row COL_WAIST = Some (Float (Fin 87))"
    "cell canonical_columns ?row COL_HEIGHT = Some (Float (Fin 1.73))"
    "cell canonical_columns ?row COL_BMI = Some (Float (Fin 22.05))"
    "cell canonical_columns ?row COL_GENDER = Some (Float NaN)"
    by (simp_all add: canonical_columns_def cell_def col_neq col_neq_sym)
  have r: "rejudge canonical_columns ?row = Inr ?j"
    by (rule rejudge_floats [OF c])
  note a = C10_non_male_gender [OF g(1), of "Fin 87" 87 "1.73" "Fin 66"]
  note b = C10_non_male_gender [OF g(2), of "Fin 87" 90 0 "Fin 0" canonical_columns ?row ?j]
  have 1: "waist_msg (Fin 87) (Str ''other'') = WAIST_NORMAL"
    using a [THEN conjunct1] by simp
  have 2: "waist_msg (Fin 87) (Str MALE) = METABO"
    by (simp add: waist_msg_Fin)
  have 3: "waist_msg (Fin 90) (Float NaN) = METABO"
    using b [THEN conjunct2, THEN conjunct1] by simp
  have 4: "\<exists>d. diagnose (Fin 1.73) (Fin 66) (Fin 87) (Str ''other'') = Inr d
          \<and> res_waist_msg d = WAIST_NORMAL"
    using a [THEN conjunct2, THEN conjunct2, THEN conjunct2, THEN conjunct1] h by simp
  have 5: "pdf_waist_msg ?j = WAIST_NORMAL"
    using b [THEN conjunct2, THEN conjunct2, THEN conjunct2, THEN conjunct2] c(2,5) r
    by (simp del: judgments.simps)
  from 1 2 3 4 5 r show ?thesis by blast
qed

text \<open>
  C8. The report is to show, for the last row, the categories the judgment rules give for
  that row's raw measurements (height, weight, waist, gender). Line 118 repeats line 78,
  but the \<open>bmi\<close> it judges is read from the stored column (line 113), which holds the value
  rounded to 2 decimals (line 94); it is not weight / height squared as at line 74. For
  weight 55.36 at the form's height 1.73 the bmi is 18.497: \<open>submit\<close> shows the BMI judgment
  underweight and stores 18.5, and the report of the stored log prints normal for the same
  record.
\<close>

theorem C8_rounded_bmi_diverges:
  "submit ''2024-01-01 09:00'' (Fin 55.36) (Fin 83) (Str MALE) (Fin 0) (Fin 0) (Fin 0) None
     = Inr (\<lparr> res_ideal_weight = Fin (22 * 1.73 ^ 2),
              res_bmi = Fin (55.36 / 1.73 ^ 2),
              res_weight_msg = THIN,
              res_bmi_msg = THIN,
              res_waist_msg = WAIST_NORMAL \<rparr>,
            Some (Table \<lparr> columns = canonical_columns,
                          rows = [[Str ''2024-01-01 09:00'', Float (Fin 1.73),
                                   Float (Fin 55.36), Float (Fin 83), Float (Fin 18.5),
                                   Str MALE, Float (Fin 0), Float (Fin 0), Float (Fin 0)]] \<rparr>))
   \<and> report (Some (Table \<lparr> columns = canonical_columns,
                          rows = [[Str ''2024-01-01 09:00'', Float (Fin 1.73),
                                   Float (Fin 55.36), Float (Fin 83), Float (Fin 18.5),
                                   Str MALE, Float (Fin 0), Float (Fin 0), Float (Fin 0)]] \<rparr>))
     = Inr (Some (\<lparr> pdf_weight_msg = THIN, pdf_bmi_msg = STANDARD,
                    pdf_waist_msg = WAIST_NORMAL \<rparr>,
                  [(Str ''2024-01-01 09:00'', Float (Fin 55.36))]))
   \<and> THIN \<noteq> STANDARD"
proof -
  let ?T = "\<lparr> columns = canonical_columns,
                          rows = [[Str ''2024-01-01 09:00'', Float (Fin 1.73),
                                   Float (Fin 55.36), Float (Fin 83), Float (Fin 18.5),
                                   Str MALE, Float (Fin 0), Float (Fin 0), Float (Fin 0)]] \<rparr>"
  have h: "(1.73::real) \<noteq> 0" by simp
  have w: "\<not> \<bar>55.36 - 22 * 1.73 ^ 2\<bar> \<le> 0.1 * (22 * (1.73::real) ^ 2)"
          "55.36 - 22 * (1.73::real) ^ 2 < 0"
    by (simp_all add: power2_eq_square)
  have b: "55.36 / 1.73 ^ 2 < (18.5::real)" by (simp add: power2_eq_square)
  have d: "diagnose form_height (Fin 55.36) (Fin 83) (Str MALE)
           = Inr \<lparr> res_ideal_weight = Fin (22 * 1.73 ^ 2),
              res_bmi = Fin (55.36 / 1.73 ^ 2),
              res_weight_msg = THIN,
              res_bmi_msg = THIN,
              res_waist_msg = WAIST_NORMAL \<rparr>"
    unfolding form_height_def
    using w b diagnose_Fin [OF h, of "55.36" "Fin 83" "Str MALE"]
    by (simp add: weight_msg_Fin bmi_msg_Fin waist_msg_Fin)
  have s: "submit ''2024-01-01 09:00'' (Fin 55.36) (Fin 83) (Str MALE) (Fin 0) (Fin 0) (Fin 0) None
           = Inr (\<lparr> res_ideal_weight = Fin (22 * 1.73 ^ 2),
              res_bmi = Fin (55.36 / 1.73 ^ 2),
              res_weight_msg = THIN,
              res_bmi_msg = THIN,
              res_waist_msg = WAIST_NORMAL \<rparr>, Some (Table ?T))"
    using submit_None [OF d, of "''2024-01-01 09:00''" "Fin 0" "Fin 0" "Fin 0"]
    by (simp add: form_height_def power2_eq_square)
  have l: "load_log (Some (Table ?T)) = Inr ?T"
    by (intro load_log_fixpoint) (simp add: canonical_columns_def)
  have c: "cell canonical_columns (last (rows ?T)) COL_WEIGHT = Some (Float (Fin 55.36))"
    "cell canonical_columns (last (rows ?T)) COL_WAIST = Some (Float (Fin 83))"
    "cell canonical_columns (last (rows ?T)) COL_HEIGHT = Some (Float (Fin 1.73))"
    "cell canonical_columns (last (rows ?T)) COL_BMI = Some (Float (Fin 18.5))"
    "cell canonical_columns (last (rows ?T)) COL_GENDER = Some (Str MALE)"
    by (simp_all add: canonical_columns_def cell_def col_neq col_neq_sym)
  have j: "rejudge (columns ?T) (last (rows ?T))
           = Inr \<lparr> pdf_weight_msg = THIN, pdf_bmi_msg = STANDARD,
                    pdf_waist_msg = WAIST_NORMAL \<rparr>"
    using rejudge_floats [OF c]
    by (simp add: ideal_weight_def weight_msg_Fin bmi_msg_Fin waist_msg_Fin power2_eq_square)
  have m: "COL_DATETIME \<in> set (columns ?T)" "COL_WEIGHT \<in> set (columns ?T)"
    by (simp_all add: canonical_columns_def)
  have rd: "list_all (\<lambda>r. is_datetime (cell (columns ?T) r COL_DATETIME)) (tail 10 (rows ?T))"
    by (simp add: tail_def canonical_columns_def cell_def is_datetime_def is_timestamp_example)
  have p: "generate_bmi_plot ?T = Inr [(Str ''2024-01-01 09:00'', Float (Fin 55.36))]"
    unfolding generate_bmi_plot_points [OF m rd]
    by (simp add: tail_def canonical_columns_def cell_or_nan_def cell_def col_neq col_neq_sym)
  have ne: "\<not> df_empty ?T" by (simp add: df_empty_def canonical_columns_def)
  have r: "report (Some (Table ?T))
     = Inr (Some (\<lparr> pdf_weight_msg = THIN, pdf_bmi_msg = STANDARD,
                    pdf_waist_msg = WAIST_NORMAL \<rparr>,
                  [(Str ''2024-01-01 09:00'', Float (Fin 55.36))]))"
    unfolding report_def l using ne j p by simp
  from s r bmi_labels_distinct(1) show ?thesis by blast
qed

text \<open>
  What the report does in general. It derives its three categories anew from fields of
  the last row and reads no stored label (the log has none). After a record is submitted
  to a log of the script, the report's weight and waist categories are those of the
  diagnosis, and its BMI category is the BMI rule applied to the diagnosis' bmi rounded
  to 2 decimals. For any last row on which \<open>rejudge\<close> returns, the weight and waist
  categories equal those \<open>diagnose\<close> gives for the stored height, weight, waist and gender,
  and the BMI category is the BMI rule on the stored BMI cell. On a rounded bmi the BMI
  rule has its thresholds half a hundredth lower (18.495, 24.995 and 29.995), so the two
  BMI judgments of one record differ when its bmi lies less than 0.005 below a threshold.
\<close>

theorem report_after_submit:
  assumes "load_log fs = Inr lg" and "is_log lg" and "is_timestamp now"
  shows "(\<exists>d fs' points.
            submit now weight waist gender run bike swim fs = Inr (d, fs')
          \<and> report fs' =
              Inr (Some (\<lparr> pdf_weight_msg = res_weight_msg d,
                           pdf_bmi_msg = bmi_msg (round2 (res_bmi d)),
                           pdf_waist_msg = res_waist_msg d \<rparr>, points)))
       \<and> (rejudge cols latest = Inr j \<longrightarrow>
            (\<exists>w wa h b g.
                cell cols latest COL_WEIGHT = Some (Float w)
              \<and> cell cols latest COL_WAIST = Some (Float wa)
              \<and> cell cols latest COL_HEIGHT = Some (Float h)
              \<and> cell cols latest COL_BMI = Some (Float b)
              \<and> cell cols latest COL_GENDER = Some g
              \<and> pdf_bmi_msg j = bmi_msg b
              \<and> pdf_weight_msg j = weight_msg w (ideal_weight h)
              \<and> pdf_waist_msg j = waist_msg wa g
              \<and> (\<forall>d. diagnose h w wa g = Inr d \<longrightarrow>
                     pdf_weight_msg j = res_weight_msg d
                   \<and> pdf_waist_msg j = res_waist_msg d)))
       \<and> bmi_msg (round2 (Fin x)) =
           (if x < 18.495 then THIN
            else if x < 24.995 then STANDARD
            else if x < 29.995 then OBESE_1
            else OBESE_HIGH)"
proof -
  obtain d where d: "diagnose form_height weight waist gender = Inr d"
    using diagnose_form_height by blast
  from submit_report [OF assms d, of run bike swim] obtain fs' points where
    sr: "submit now weight waist gender run bike swim fs = Inr (d, fs')"
        "report fs' =
           Inr (Some (\<lparr> pdf_weight_msg = weight_msg weight (ideal_weight form_height),
                        pdf_bmi_msg = bmi_msg (round2 (res_bmi d)),
                        pdf_waist_msg = waist_msg waist gender \<rparr>, points))"
    by blast
  have "submit now weight waist gender run bike swim fs = Inr (d, fs')
          \<and> report fs' =
              Inr (Some (\<lparr> pdf_weight_msg = res_weight_msg d,
                           pdf_bmi_msg = bmi_msg (round2 (res_bmi d)),
                           pdf_waist_msg = res_waist_msg d \<rparr>, points))"
    using sr by (simp add: diagnose_InrD(1,2) [OF d])
  then have one: "\<exists>d fs' points.
            submit now weight waist gender run bike swim fs = Inr (d, fs')
          \<and> report fs' =
              Inr (Some (\<lparr> pdf_weight_msg = res_weight_msg d,
                           pdf_bmi_msg = bmi_msg (round2 (res_bmi d)),
                           pdf_waist_msg = res_waist_msg d \<rparr>, points))"
    by blast
  have two: "\<exists>w wa h b g.
                cell cols latest COL_WEIGHT = Some (Float w)
              \<and> cell cols latest COL_WAIST = Some (Float wa)
              \<and> cell cols latest COL_HEIGHT = Some (Float h)
              \<and> cell cols latest COL_BMI = Some (Float b)
              \<and> cell cols latest COL_GENDER = Some g
              \<and> pdf_bmi_msg j = bmi_msg b
              \<and> pdf_weight_msg j = weight_msg w (ideal_weight h)
              \<and> pdf_waist_msg j = waist_msg wa g
              \<and> (\<forall>d. diagnose h w wa g = Inr d \<longrightarrow>
                     pdf_weight_msg j = res_weight_msg d
                   \<and> pdf_waist_msg j = res_waist_msg d)"
    if "rejudge cols latest = Inr j"
  proof -
    from rejudge_InrD [OF that] obtain w wa h b g where
      c: "cell cols latest COL_WEIGHT = Some (Float w)"
         "cell cols latest COL_WAIST = Some (Float wa)"
         "cell cols latest COL_HEIGHT = Some (Float h)"
         "cell cols latest COL_BMI = Some (Float b)"
         "cell cols latest COL_GENDER = Some g"
      and j: "j = \<lparr> pdf_weight_msg = weight_msg w (ideal_weight h),
                 pdf_bmi_msg = bmi_msg b,
                 pdf_waist_msg = waist_msg wa g \<rparr>"
      by blast
    have "pdf_weight_msg j = res_weight_msg d' \<and> pdf_waist_msg j = res_waist_msg d'"
      if "diagnose h w wa g = Inr d'" for d'
      using diagnose_InrD(1,2) [OF that] j by simp
    with c j show ?thesis by (intro exI [of _ w] exI [of _ wa] exI [of _ h] exI [of _ b] exI [of _ g]) simp
  qed
  from one two bmi_msg_round2 [of x] show ?thesis by blast
qed

text \<open>
  The form's default input, submitted to an absent log and reported.
\<close>

theorem report_after_submit_example:
  "\<exists>d fs' points.
      submit ''2024-01-01 09:00'' (Fin 66) (Fin 83) (Str MALE) (Fin 0) (Fin 0) (Fin 0) None
        = Inr (d, fs')
    \<and> res_weight_msg d = STANDARD \<and> res_bmi_msg d = STANDARD \<and> res_waist_msg d = WAIST_NORMAL
    \<and> report fs' =
        Inr (Some (\<lparr> pdf_weight_msg = STANDARD, pdf_bmi_msg = STANDARD,
                     pdf_waist_msg = WAIST_NORMAL \<rparr>, points))"
proof -
  have h: "(1.73::real) \<noteq> 0" by simp
  have g: "is_log \<lparr> columns = canonical_columns, rows = [] \<rparr>"
    by (simp add: is_log_def wf_df_def canonical_distinct)
  from report_after_submit [OF load_log_None g is_timestamp_example(1), THEN conjunct1,
      of "Fin 66" "Fin 83" "Str MALE" "Fin 0" "Fin 0" "Fin 0"]
  obtain d fs' points where
    s: "submit ''2024-01-01 09:00'' (Fin 66) (Fin 83) (Str MALE) (Fin 0) (Fin 0) (Fin 0) None
        = Inr (d, fs')"
    and r: "report fs' =
              Inr (Some (\<lparr> pdf_weight_msg = res_weight_msg d,
                           pdf_bmi_msg = bmi_msg (round2 (res_bmi d)),
                           pdf_waist_msg = res_waist_msg d \<rparr>, points))"
    by blast
  have a: "\<bar>66 - 22 * 1.73 ^ 2\<bar> \<le> 0.1 * (22 * (1.73::real) ^ 2)"
    by (simp add: power2_eq_square)
  have lo: "\<not> (66 / 1.73 ^ 2 < (18.5::real))" "\<not> (66 / 1.73 ^ 2 < (18.495::real))"
    by (simp_all add: power2_eq_square)
  have hi: "66 / 1.73 ^ 2 < (25::real)" "66 / 1.73 ^ 2 < (24.995::real)"
    by (simp_all add: power2_eq_square)
  have dg: "diagnose form_height (Fin 66) (Fin 83) (Str MALE)
           = Inr \<lparr> res_ideal_weight = Fin (22 * 1.73 ^ 2),
              res_bmi = Fin (66 / 1.73 ^ 2),
              res_weight_msg = STANDARD,
              res_bmi_msg = STANDARD,
              res_waist_msg = WAIST_NORMAL \<rparr>"
    unfolding form_height_def
    using a lo hi diagnose_Fin [OF h, of 66 "Fin 83" "Str MALE"]
    by (simp add: weight_msg_Fin bmi_msg_Fin waist_msg_Fin)
  from s submit_None [OF dg, of "''2024-01-01 09:00''" "Fin 0" "Fin 0" "Fin 0"]
  have d: "d = \<lparr> res_ideal_weight = Fin (22 * 1.73 ^ 2),
              res_bmi = Fin (66 / 1.73 ^ 2),
              res_weight_msg = STANDARD,
              res_bmi_msg = STANDARD,
              res_waist_msg = WAIST_NORMAL \<rparr>"
    by simp
  have b: "bmi_msg (round2 (res_bmi d)) = STANDARD"
    unfolding d using lo hi by (simp only: diagnosis.simps bmi_msg_round2 if_True if_False)
  from s r b d show ?thesis by auto
qed

end
